theory Spec2Isabelle
  imports Complex_Main
begin

section \<open>Arrays, floats and outcomes\<close>

text \<open>
  The engine of \<^verbatim>\<open>adversarialLogistic.py\<close> works on one-dimensional numpy arrays of
  floats (vectors) and on two-dimensional ones (matrices, as lists of rows). In the
  functions of this section and the next a float is a real number and arithmetic is exact;
  the section on rounded arithmetic has the solver with every operation rounded, for what
  depends on the rounding. Where numpy or scipy would go on with \<^verbatim>\<open>inf\<close> or
  \<^verbatim>\<open>nan\<close> (a division by zero gives a RuntimeWarning and no exception) the real numbers
  have no value to go on with: the outcome is \<open>NonFinite\<close>. It says that no exception
  has been raised up to that point and that the values are \<^verbatim>\<open>inf\<close> or \<^verbatim>\<open>nan\<close> from
  there on; the run is not followed further, and the code may still return such values or
  raise later.
\<close>

type_synonym vec = "real list"
type_synonym mat = "real list list"

datatype exn =
    ValueError string
  | ArithmeticError string
  | PyException string
  | TypeError string
  | IndexError string
  | AttributeError string
  | ZeroDivisionError string
  | AssertionError

datatype 'a run = Raise exn | NonFinite | Return 'a

fun bind_run :: "'a run \<Rightarrow> ('a \<Rightarrow> 'b run) \<Rightarrow> 'b run" where
  "bind_run (Raise e) f = Raise e"
| "bind_run NonFinite f = NonFinite"
| "bind_run (Return a) f = f a"

definition raises :: "'a run \<Rightarrow> bool" where
  "raises r = (case r of Raise e \<Rightarrow> True | NonFinite \<Rightarrow> False | Return a \<Rightarrow> False)"

definition py_assert :: "bool \<Rightarrow> unit run" where
  "py_assert c = (if c then Return () else Raise AssertionError)"

subsection \<open>Vectors\<close>

definition dot :: "vec \<Rightarrow> vec \<Rightarrow> real" where
  "dot x y = sum_list (map2 (*) x y)"

definition vadd :: "vec \<Rightarrow> vec \<Rightarrow> vec" where
  "vadd x y = map2 (+) x y"

definition smult :: "real \<Rightarrow> vec \<Rightarrow> vec" where
  "smult k x = map ((*) k) x"

text \<open>\<^verbatim>\<open>x.dot(y)\<close> on two 1-D arrays: the lengths must agree.\<close>

definition np_dot :: "vec \<Rightarrow> vec \<Rightarrow> real run" where
  "np_dot x y =
     (if length x = length y then Return (dot x y)
      else Raise (ValueError ''shapes not aligned''))"

text \<open>\<^verbatim>\<open>x + y\<close> on two 1-D arrays: numpy broadcasts an array of length one.\<close>

definition np_add :: "vec \<Rightarrow> vec \<Rightarrow> vec run" where
  "np_add x y =
     (if length x = length y then Return (vadd x y)
      else if length x = 1 then Return (map ((+) (hd x)) y)
      else if length y = 1 then Return (map (\<lambda>a. a + hd y) x)
      else Raise (ValueError ''operands could not be broadcast together''))"

text \<open>\<^verbatim>\<open>np.insert(v, i, c)\<close> for an index \<open>i\<close> that is not negative.\<close>

definition np_insert :: "vec \<Rightarrow> nat \<Rightarrow> real \<Rightarrow> vec run" where
  "np_insert v i c =
     (if i \<le> length v then Return (take i v @ [c] @ drop i v)
      else Raise (IndexError ''index out of bounds''))"

subsection \<open>Matrices\<close>

definition ncols :: "mat \<Rightarrow> nat" where
  "ncols A = (case A of [] \<Rightarrow> 0 | r # rs \<Rightarrow> length r)"

definition is_shape :: "nat \<Rightarrow> nat \<Rightarrow> mat \<Rightarrow> bool" where
  "is_shape r c A = (length A = r \<and> list_all (\<lambda>row. length row = c) A)"

text \<open>The product of a 1-D array with a matrix, \<^verbatim>\<open>x.dot(A)\<close>: the sum of the rows of
  \<open>A\<close>, the \<open>i\<close>-th one scaled by \<open>x\<^sub>i\<close>.\<close>

fun vec_mat :: "nat \<Rightarrow> vec \<Rightarrow> mat \<Rightarrow> vec" where
  "vec_mat c (xi # x) (row # A) = vadd (smult xi row) (vec_mat c x A)"
| "vec_mat c x A = replicate c 0"

definition np_vec_mat :: "vec \<Rightarrow> mat \<Rightarrow> vec run" where
  "np_vec_mat x A =
     (if is_shape (length x) (ncols A) A then Return (vec_mat (ncols A) x A)
      else Raise (ValueError ''shapes not aligned''))"

text \<open>\<^verbatim>\<open>x.T.dot(A).dot(y)\<close>; the transpose of a 1-D array is the array itself.\<close>

definition quad :: "vec \<Rightarrow> mat \<Rightarrow> vec \<Rightarrow> real run" where
  "quad x A y = bind_run (np_vec_mat x A) (\<lambda>xA. np_dot xA y)"

definition outer :: "vec \<Rightarrow> vec \<Rightarrow> mat" where
  "outer u v = map (\<lambda>ui. smult ui v) u"

definition mat_scale :: "real \<Rightarrow> mat \<Rightarrow> mat" where
  "mat_scale k A = map (smult k) A"

definition mat_add :: "mat \<Rightarrow> mat \<Rightarrow> mat" where
  "mat_add A B = map2 vadd A B"

definition mat_sub :: "mat \<Rightarrow> mat \<Rightarrow> mat" where
  "mat_sub A B = map2 (map2 (-)) A B"

text \<open>\<^verbatim>\<open>A - B\<close> and \<^verbatim>\<open>A + B\<close> on matrices of one shape. (numpy also broadcasts a
  dimension of size one; the orchestrator never gets there, since the probability estimate
  that precedes the solver needs a covariance of the shape of \<^verbatim>\<open>np.outer(beta_hat, beta_hat)\<close>.)\<close>

definition same_shape :: "mat \<Rightarrow> mat \<Rightarrow> bool" where
  "same_shape A B = (is_shape (length A) (ncols A) A \<and> is_shape (length A) (ncols A) B)"

definition np_mat_sub :: "mat \<Rightarrow> mat \<Rightarrow> mat run" where
  "np_mat_sub A B =
     (if same_shape A B then Return (mat_sub A B)
      else Raise (ValueError ''operands could not be broadcast together''))"

definition np_mat_add :: "mat \<Rightarrow> mat \<Rightarrow> mat run" where
  "np_mat_add A B =
     (if same_shape A B then Return (mat_add A B)
      else Raise (ValueError ''operands could not be broadcast together''))"

text \<open>\<^verbatim>\<open>A.dot(B)\<close> on two matrices, row by row.\<close>

definition np_mat_mul :: "mat \<Rightarrow> mat \<Rightarrow> mat run" where
  "np_mat_mul A B =
     (if is_shape (length A) (length B) A \<and> is_shape (length B) (ncols B) B
      then Return (map (\<lambda>row. vec_mat (ncols B) row B) A)
      else Raise (ValueError ''shapes not aligned''))"

definition np_diag :: "vec \<Rightarrow> mat" where
  "np_diag w = map (\<lambda>i. (replicate (length w) 0)[i := w ! i]) [0..<length w]"

definition np_identity :: "nat \<Rightarrow> mat" where
  "np_identity n = np_diag (replicate n 1)"

section \<open>The engine\<close>

text \<open>
  What \<^verbatim>\<open>__init__\<close> keeps of the fitted model. Of an sklearn model the covariance
  estimator reads \<^verbatim>\<open>get_params()['C']\<close> and \<^verbatim>\<open>['penalty']\<close>; of a statsmodels
  model it reads \<^verbatim>\<open>normalized_cov_params\<close>, when the model has the attribute.
\<close>

datatype fitted_model =
    Sklearn (param_C: real) (param_penalty: string)
  | Statsmodels (normalized_cov_params: "mat option")

text \<open>
  The attributes of an \<^verbatim>\<open>AdversarialLogistic\<close> object. \<open>cov_params\<close> is \<open>None\<close> until
  \<^verbatim>\<open>compute_covariance\<close> has set the attribute (the code asks \<^verbatim>\<open>hasattr\<close>). The
  bounds are the constructor's scalars; \<open>None\<close> is the default, \<^verbatim>\<open>float('-inf')\<close> for
  the lower and \<^verbatim>\<open>float('inf')\<close> for the upper bound, which no coordinate passes.
  The two coefficient attributes are 1-D arrays, as \<^verbatim>\<open>squeeze()\<close> leaves them for
  two coefficients or more. Of a single coefficient \<^verbatim>\<open>squeeze()\<close> leaves a 0-d array: a list
  of one element stands for it. The label \<open>y\<close> of an example is a Python integer.
\<close>

record engine =
  module :: string
  fitted :: fitted_model
  X_has_constant :: bool
  model_has_intercept :: bool
  beta_hat :: vec
  beta_hat_minus0 :: vec
  idx_beta0 :: nat
  cov_params :: "mat option"
  lower_bound :: "real option"
  upper_bound :: "real option"

text \<open>
  What \<^verbatim>\<open>__init__\<close> (lines 40 to 64) establishes between the attributes. With an
  intercept, \<open>beta_hat\<close> is \<open>beta_hat_minus0\<close> with the intercept at \<open>idx_beta0\<close>:
  for sklearn \<^verbatim>\<open>np.insert(model.coef_, 0, model.intercept_)\<close> and index 0, for statsmodels
  the parameters without the entry named \<^verbatim>\<open>const\<close>, and \<open>X_has_constant\<close> set. Without one,
  both are the same array.
\<close>

definition engine_inv :: "engine \<Rightarrow> bool" where
  "engine_inv st =
     (if model_has_intercept st
      then idx_beta0 st < length (beta_hat st) \<and>
           beta_hat_minus0 st = take (idx_beta0 st) (beta_hat st) @ drop (Suc (idx_beta0 st)) (beta_hat st) \<and>
           (X_has_constant st \<or> idx_beta0 st = 0)
      else beta_hat_minus0 st = beta_hat st \<and> \<not> X_has_constant st)"

subsection \<open>\<^verbatim>\<open>__add_constant\<close>\<close>

definition add_constant_x :: "engine \<Rightarrow> vec \<Rightarrow> vec" where
  "add_constant_x st x =
     (if model_has_intercept st \<and> \<not> X_has_constant st then 1 # x else x)"

subsection \<open>\<^verbatim>\<open>__check_bounds\<close>\<close>

definition under_bound :: "real option \<Rightarrow> real \<Rightarrow> bool" where
  "under_bound lb c = (case lb of None \<Rightarrow> False | Some l \<Rightarrow> c < l)"

definition over_bound :: "real option \<Rightarrow> real \<Rightarrow> bool" where
  "over_bound ub c = (case ub of None \<Rightarrow> False | Some u \<Rightarrow> u < c)"

text \<open>\<^verbatim>\<open>x_adv[x_adv < self.lower_bound] = self.lower_bound\<close>, and the same for the upper bound.\<close>

definition clip_lower :: "real option \<Rightarrow> vec \<Rightarrow> vec" where
  "clip_lower lb v = (case lb of None \<Rightarrow> v | Some l \<Rightarrow> map (\<lambda>c. if c < l then l else c) v)"

definition clip_upper :: "real option \<Rightarrow> vec \<Rightarrow> vec" where
  "clip_upper ub v = (case ub of None \<Rightarrow> v | Some u \<Rightarrow> map (\<lambda>c. if u < c then u else c) v)"

text \<open>
  The lower bound is looked at first, then the upper one on the array as the first step
  left it. The array is changed in place and returned; \<open>None\<close> is Python's \<^verbatim>\<open>None\<close>.
\<close>

definition check_bounds :: "engine \<Rightarrow> vec \<Rightarrow> string \<Rightarrow> vec option run" where
  "check_bounds st x_adv out_bounds =
     (if out_bounds \<notin> set [''clipping'', ''missing'', ''nothing''] then Raise AssertionError
      else
        let low = list_ex (under_bound (lower_bound st)) x_adv in
        if low \<and> out_bounds = ''missing'' then Return None
        else
          let x1 = (if low \<and> out_bounds = ''clipping''
                    then clip_lower (lower_bound st) x_adv else x_adv);
              high = list_ex (over_bound (upper_bound st)) x1
          in if high \<and> out_bounds = ''missing'' then Return None
             else Return (Some (if high \<and> out_bounds = ''clipping''
                                then clip_upper (upper_bound st) x1 else x1)))"

text \<open>A coordinate out of the range of the two bounds, and bounds that leave a range.\<close>

definition out_of_range :: "engine \<Rightarrow> real \<Rightarrow> bool" where
  "out_of_range st c = (under_bound (lower_bound st) c \<or> over_bound (upper_bound st) c)"

definition bounds_ordered :: "engine \<Rightarrow> bool" where
  "bounds_ordered st =
     (case lower_bound st of None \<Rightarrow> True
      | Some l \<Rightarrow> (case upper_bound st of None \<Rightarrow> True | Some u \<Rightarrow> l \<le> u))"

subsection \<open>\<^verbatim>\<open>compute_orthogonal_projection\<close>\<close>

text \<open>\<^verbatim>\<open>sum(beta_hat_minus0**2)\<close>\<close>

definition sum_sq :: "vec \<Rightarrow> real" where
  "sum_sq v = sum_list (map (\<lambda>b. b * b) v)"

text \<open>
  \<open>beta_hat_minus0\<close> is a 0-d array when the model has a single coefficient beside the
  intercept: lines 45, 50 and 63 squeeze it. Only a statsmodels model without a constant
  keeps its parameters unsqueezed (line 58).
\<close>

definition minus0_is_0d :: "engine \<Rightarrow> bool" where
  "minus0_is_0d st =
     (length (beta_hat_minus0 st) = 1 \<and> (module st \<noteq> ''statsmodels'' \<or> model_has_intercept st))"

text \<open>
  The builtin \<^verbatim>\<open>sum\<close> iterates over its argument: on the square of a 0-d array, a numpy
  scalar, it raises a \<^verbatim>\<open>TypeError\<close>, after \<^verbatim>\<open>x.dot(beta_hat)\<close> has been computed.
  The quotient is a numpy float: when the sum of squares is zero the division gives
  \<^verbatim>\<open>inf\<close> or \<^verbatim>\<open>nan\<close> and the function goes on with it; nothing compares the sum with
  zero before. After the division only \<^verbatim>\<open>np.insert\<close> can raise, on an index out of
  range, so here \<open>NonFinite\<close> is the function returning an array that holds \<^verbatim>\<open>nan\<close> at
  every coefficient (and the zero of the intercept).
\<close>

definition compute_orthogonal_projection :: "engine \<Rightarrow> vec \<Rightarrow> real \<Rightarrow> vec run" where
  "compute_orthogonal_projection st x overshoot =
     bind_run (np_dot x (beta_hat st)) (\<lambda>s.
       if minus0_is_0d st then Raise (TypeError ''numpy.float64 object is not iterable'')
       else if sum_sq (beta_hat_minus0 st) = 0 then
         (if model_has_intercept st \<and> length (beta_hat_minus0 st) < idx_beta0 st
          then Raise (IndexError ''index out of bounds'') else NonFinite)
       else
         let delta = smult (- (s / sum_sq (beta_hat_minus0 st))) (beta_hat_minus0 st);
             delta = map (\<lambda>d. d * (1 + overshoot)) delta
         in if model_has_intercept st then np_insert delta (idx_beta0 st) 0
            else Return delta)"

subsection \<open>\<^verbatim>\<open>__solve_lambda\<close>\<close>

text \<open>
  \<^verbatim>\<open>scipy.special.erfinv\<close> is library code: the solver takes the function as the parameter
  \<open>erfinv\<close>, and what is proved of the solver holds for every such function. scipy gives
  \<^verbatim>\<open>inf\<close> at 1 and -1 and \<^verbatim>\<open>nan\<close> beyond; the coefficients of the quadratic are then
  \<^verbatim>\<open>inf\<close> or \<^verbatim>\<open>nan\<close>, and the solver ends in one of its two exceptions, which one
  depending on the signs that are left. The model stops at \<open>NonFinite\<close>.
\<close>

definition sp_erfinv :: "(real \<Rightarrow> real) \<Rightarrow> real \<Rightarrow> real run" where
  "sp_erfinv erfinv p = (if - 1 < p \<and> p < 1 then Return (erfinv p) else NonFinite)"

text \<open>
  The left-hand side of the equation before squaring, at \<open>x_adv\<close>:
  \<^verbatim>\<open>abs(x_adv.dot(beta_hat) + d*math.sqrt(x_adv.T.dot(self.cov_params).dot(x_adv)))\<close> with
  \<^verbatim>\<open>d = math.sqrt(2)*special.erfinv(2*alpha-1)\<close>; \<open>q\<close> is the value of \<open>erfinv\<close>.
  \<^verbatim>\<open>math.sqrt\<close> raises on a negative argument.
\<close>

definition residual :: "real \<Rightarrow> vec \<Rightarrow> mat \<Rightarrow> vec \<Rightarrow> real run" where
  "residual q beta cov x_adv =
     bind_run (np_dot x_adv beta) (\<lambda>m.
     bind_run (quad x_adv cov x_adv) (\<lambda>s.
       if s < 0 then Raise (ValueError ''math domain error'')
       else Return \<bar>m + sqrt 2 * q * sqrt s\<bar>))"

text \<open>The loop over \<^verbatim>\<open>[lambda1, lambda2]\<close>, and the \<^verbatim>\<open>raise\<close> that ends the function.\<close>

fun try_roots :: "(real \<Rightarrow> real run) \<Rightarrow> real \<Rightarrow> real list \<Rightarrow> real option run" where
  "try_roots eq_at tol [] = Raise (ValueError ''Error when solving the 2nd degree equation.'')"
| "try_roots eq_at tol (lambda_star # rest) =
     bind_run (eq_at lambda_star) (\<lambda>eq.
       if eq < tol then Return (Some lambda_star) else try_roots eq_at tol rest)"

text \<open>The coefficients \<open>(a, b, c)\<close> of the quadratic for the value \<open>q\<close> of \<open>erfinv\<close>.\<close>

definition quadratic_coeffs :: "vec \<Rightarrow> mat \<Rightarrow> real \<Rightarrow> vec \<Rightarrow> vec \<Rightarrow> (real \<times> real \<times> real) run" where
  "quadratic_coeffs beta cov q x delta =
     bind_run (np_mat_sub (outer beta beta) (mat_scale (2 * q\<^sup>2) cov)) (\<lambda>A.
     bind_run (quad delta A delta) (\<lambda>a.
     bind_run (quad x A delta) (\<lambda>b1.
     bind_run (quad delta A x) (\<lambda>b2.
     bind_run (quad x A x) (\<lambda>c. Return (a, b1 + b2, c))))))"

text \<open>
  \<open>Return None\<close> is the function returning \<^verbatim>\<open>None\<close>. The quotients by \<open>2*a\<close> are numpy
  floats, so \<open>a = 0\<close> (which passes the test against a \<open>tol_underflow\<close> that is not positive)
  gives \<^verbatim>\<open>inf\<close> or \<^verbatim>\<open>nan\<close>: on the path of the repeated root the function returns
  that value, on the path of the two roots no root passes the test of its residual.
\<close>

definition solve_lambda ::
  "(real \<Rightarrow> real) \<Rightarrow> engine \<Rightarrow> real \<Rightarrow> vec \<Rightarrow> int \<Rightarrow> vec \<Rightarrow> real \<Rightarrow> real \<Rightarrow> real option run" where
  "solve_lambda erfinv st alpha0 x y delta tol tol_underflow =
     bind_run (py_assert (y = 0 \<or> y = 1)) (\<lambda>_.
     let alpha = (if y = 0 then 1 - alpha0 else alpha0) in
     case cov_params st of
       None \<Rightarrow> Raise (AttributeError ''cov_params'')
     | Some cov \<Rightarrow>
     bind_run (sp_erfinv erfinv (2 * alpha - 1)) (\<lambda>q.
     bind_run (quadratic_coeffs (beta_hat st) cov q x delta) (\<lambda>(a, b, c).
     let DeltaEq2 = b\<^sup>2 - 4 * a * c in
     if a < tol_underflow then Raise (ArithmeticError ''Risk of underflow'')
     else if \<bar>DeltaEq2\<bar> < tol \<and> DeltaEq2 \<le> 0 then
       (if a = 0 then NonFinite else Return (Some (- b / (2 * a))))
     else if DeltaEq2 < 0 then Return None
     else if DeltaEq2 > 0 then
       (if a = 0 then NonFinite
        else try_roots
               (\<lambda>lambda_star.
                  bind_run (np_add x (smult lambda_star delta)) (residual q (beta_hat st) cov))
               tol
               [(- b - sqrt DeltaEq2) / (2 * a), (- b + sqrt DeltaEq2) / (2 * a)])
     else Raise (ValueError ''Error when solving the 2nd degree equation.''))))"

subsection \<open>\<^verbatim>\<open>__compute_probability_predx_equals_y\<close>\<close>

text \<open>
  \<^verbatim>\<open>scipy.stats.norm.cdf(0, loc, scale)\<close> is the parameter \<open>norm_cdf\<close>; with a scale of zero
  scipy gives \<^verbatim>\<open>nan\<close>.
\<close>

definition compute_probability_predx_equals_y ::
  "(real \<Rightarrow> real \<Rightarrow> real \<Rightarrow> real) \<Rightarrow> engine \<Rightarrow> vec \<Rightarrow> int \<Rightarrow> real run" where
  "compute_probability_predx_equals_y norm_cdf st x y =
     bind_run (py_assert (y = 0 \<or> y = 1)) (\<lambda>_.
     case cov_params st of
       None \<Rightarrow> Raise (PyException ''Missing cov_params. Call: self.compute_covariance(X_train, y_train)'')
     | Some cov \<Rightarrow>
     bind_run (np_dot x (beta_hat st)) (\<lambda>mu.
     bind_run (quad x cov x) (\<lambda>sigma.
       if sigma < 0 then Raise (ValueError ''math domain error'')
       else if sigma = 0 then NonFinite
       else
         let proba_xbeta_inf_0 = norm_cdf 0 mu (sqrt sigma)
         in if y = 0 then Return proba_xbeta_inf_0 else Return (1 - proba_xbeta_inf_0))))"

subsection \<open>\<^verbatim>\<open>compute_adversarial_perturbation\<close>\<close>

text \<open>The runtime type of the argument \<^verbatim>\<open>alpha\<close>: the code compares \<^verbatim>\<open>type(alpha)\<close>
  with \<^verbatim>\<open>float\<close> and with \<^verbatim>\<open>list\<close>.\<close>

datatype py_alpha =
    PyFloat real
  | PyList "real list"
  | PyInt int
  | NpFloat64 real
  | PyTuple "real list"

text \<open>The dictionary of one level. In it \<^verbatim>\<open>lambda_star\<close> is always a number: a
  \<^verbatim>\<open>None\<close> of the solver ends the call at \<^verbatim>\<open>lambda_star * delta\<close>.\<close>

record result =
  alpha :: real
  lambda_star :: real
  x_adv_star :: "vec option"
  x_adv_0 :: "vec option"

datatype perturbations = Single result | Many "result list"

text \<open>
  Lines 272 to 287: alignment, the projection, the self-check of the projected point and
  its bounds. The value is \<open>(x, delta, x_adv_0)\<close>, \<open>x\<close> being the aligned example. The
  self-check is evaluated in exact arithmetic, where the overshoot always carries the
  projected point across the hyperplane; rounded, the sum \<open>x + delta\<close> can fail it.
\<close>

definition prelude :: "engine \<Rightarrow> vec \<Rightarrow> int \<Rightarrow> string \<Rightarrow> (vec \<times> vec \<times> vec option) run" where
  "prelude st x0 y out_bounds =
     (let x = add_constant_x st x0 in
      if cov_params st = None
      then Raise (PyException ''Missing cov_params. Call: self.compute_covariance(X_train, y_train)'')
      else
      bind_run (py_assert (y = 0 \<or> y = 1)) (\<lambda>_.
      bind_run (np_dot x (beta_hat st)) (\<lambda>s.
      let x_correctly_predicted = ((s > 0) = (y = 1)) in
      bind_run (compute_orthogonal_projection st x (1 / 10 ^ 6)) (\<lambda>delta.
      bind_run (np_add x delta) (\<lambda>x_adv_0.
      bind_run (np_dot x_adv_0 (beta_hat st)) (\<lambda>s0.
      bind_run (py_assert (if x_correctly_predicted then (s0 > 0) \<noteq> (y = 1)
                           else (s0 > 0) = (y = 1))) (\<lambda>_.
      bind_run (check_bounds st x_adv_0 out_bounds) (\<lambda>x_adv_0.
      Return (x, delta, x_adv_0)))))))))"

definition alphas_of :: "py_alpha \<Rightarrow> real list run" where
  "alphas_of a =
     (case a of PyFloat v \<Rightarrow> Return [v]
      | PyList vs \<Rightarrow> Return vs
      | _ \<Rightarrow> Raise (PyException ''Invalid alpha parameter''))"

text \<open>
  One turn of the loop over the levels. In the first branch \<^verbatim>\<open>x_adv_star\<close> is the array
  \<open>x\<close> itself, so the clipping of \<^verbatim>\<open>__check_bounds\<close> changes \<open>x\<close> for the turns that
  follow: the value is the dictionary and \<open>x\<close> as the turn leaves it.
\<close>

definition one_level ::
  "(real \<Rightarrow> real) \<Rightarrow> (real \<Rightarrow> real \<Rightarrow> real \<Rightarrow> real) \<Rightarrow> engine \<Rightarrow> int \<Rightarrow> string \<Rightarrow> real \<Rightarrow> real \<Rightarrow>
   vec \<Rightarrow> vec option \<Rightarrow> real \<Rightarrow> vec \<Rightarrow> real \<Rightarrow> (result \<times> vec) run" where
  "one_level erfinv norm_cdf st y out_bounds tol tol_underflow delta x_adv_0' proba_predx_equals_y x a =
     (if 1 - proba_predx_equals_y \<ge> a then
        bind_run (check_bounds st x out_bounds) (\<lambda>checked.
          Return (\<lparr>alpha = a, lambda_star = 0, x_adv_star = checked, x_adv_0 = x_adv_0'\<rparr>,
                  (case checked of None \<Rightarrow> x | Some v \<Rightarrow> v)))
      else
        bind_run (solve_lambda erfinv st a x y delta tol tol_underflow) (\<lambda>solved.
        case solved of
          None \<Rightarrow> Raise (TypeError ''unsupported operand type(s) for *'')
        | Some lambda_star' \<Rightarrow>
        bind_run (np_add x (smult lambda_star' delta)) (\<lambda>x_adv_star'.
        bind_run (if a > 1 / 2 + tol
                  then bind_run (np_dot x_adv_star' (beta_hat st)) (\<lambda>s. py_assert ((s > 0) \<noteq> (y = 1)))
                  else if a < 1 / 2 - tol
                  then bind_run (np_dot x_adv_star' (beta_hat st)) (\<lambda>s. py_assert ((s > 0) = (y = 1)))
                  else Return ()) (\<lambda>_.
        bind_run (compute_probability_predx_equals_y norm_cdf st x_adv_star' y) (\<lambda>proba_predxadvstar_equals_y.
        bind_run (py_assert (1 - proba_predxadvstar_equals_y + tol \<ge> a)) (\<lambda>_.
        bind_run (check_bounds st x_adv_star' out_bounds) (\<lambda>checked.
          Return (\<lparr>alpha = a, lambda_star = lambda_star', x_adv_star = checked, x_adv_0 = x_adv_0'\<rparr>,
                  x))))))))"

fun levels ::
  "(vec \<Rightarrow> real \<Rightarrow> (result \<times> vec) run) \<Rightarrow> vec \<Rightarrow> real list \<Rightarrow> result list run" where
  "levels turn x [] = Return []"
| "levels turn x (a # alphas) =
     bind_run (turn x a) (\<lambda>(result_dict, x').
     bind_run (levels turn x' alphas) (\<lambda>results. Return (result_dict # results)))"

text \<open>A single level gives its dictionary, several levels (or none) give the list.\<close>

definition compute_adversarial_perturbation ::
  "(real \<Rightarrow> real) \<Rightarrow> (real \<Rightarrow> real \<Rightarrow> real \<Rightarrow> real) \<Rightarrow> engine \<Rightarrow> vec \<Rightarrow> int \<Rightarrow> py_alpha \<Rightarrow> string \<Rightarrow>
   real \<Rightarrow> real \<Rightarrow> perturbations run" where
  "compute_adversarial_perturbation erfinv norm_cdf st x0 y alpha' out_bounds tol tol_underflow =
     bind_run (prelude st x0 y out_bounds) (\<lambda>(x, delta, x_adv_0').
     bind_run (alphas_of alpha') (\<lambda>alphas.
     bind_run (compute_probability_predx_equals_y norm_cdf st x y) (\<lambda>proba_predx_equals_y.
     bind_run (levels (one_level erfinv norm_cdf st y out_bounds tol tol_underflow delta x_adv_0'
                         proba_predx_equals_y) x alphas) (\<lambda>results.
       Return (if length alphas = 1 then Single (hd results) else Many results)))))"

subsection \<open>\<^verbatim>\<open>compute_covariance\<close>\<close>

text \<open>
  Library code, taken as parameters: \<open>predict_proba\<close> is
  \<^verbatim>\<open>model.predict_proba(X)[:, model.classes_ == 1]\<close> squeezed, \<open>linalg_inv\<close> is
  \<^verbatim>\<open>np.linalg.inv\<close> and \<open>sm_add_constant\<close> is \<^verbatim>\<open>sm.add_constant(X, prepend=True)\<close>.
\<close>

record library =
  predict_proba :: "mat \<Rightarrow> vec run"
  linalg_inv :: "mat \<Rightarrow> mat run"
  sm_add_constant :: "mat \<Rightarrow> mat"

definition add_constant_X :: "library \<Rightarrow> engine \<Rightarrow> mat option \<Rightarrow> mat option" where
  "add_constant_X lib st X =
     (if model_has_intercept st \<and> \<not> X_has_constant st
      then (case X of None \<Rightarrow> None | Some M \<Rightarrow> Some (sm_add_constant lib M))
      else X)"

text \<open>\<^verbatim>\<open>np.dot(X_train.T.dot(W), X_train)\<close> with
  \<^verbatim>\<open>W = np.diag((yhat*(1-yhat)).squeeze())\<close>. Of a design matrix of one row the
  probabilities squeeze to a 0-d array, which \<^verbatim>\<open>np.diag\<close> refuses.\<close>

definition Xt_W_X_of :: "library \<Rightarrow> mat \<Rightarrow> mat \<Rightarrow> mat run" where
  "Xt_W_X_of lib X_train_origin X_train =
     bind_run (predict_proba lib X_train_origin) (\<lambda>yhat.
     if length yhat = 1 then Raise (ValueError ''Input must be 1- or 2-d.'')
     else
     let W = np_diag (map (\<lambda>p. p * (1 - p)) yhat) in
     bind_run (np_mat_mul (transpose X_train) W) (\<lambda>Xt_W. np_mat_mul Xt_W X_train))"

text \<open>The value is the engine with \<open>cov_params\<close> set. The regularisation strength \<open>C\<close> is
  a Python float, whose division by zero raises.\<close>

definition compute_covariance :: "library \<Rightarrow> engine \<Rightarrow> mat option \<Rightarrow> engine run" where
  "compute_covariance lib st X_train_origin =
     (let X_train = add_constant_X lib st X_train_origin in
      if module st = ''statsmodels'' then
        (case fitted st of
           Statsmodels (Some cov) \<Rightarrow> Return (st\<lparr>cov_params := Some cov\<rparr>)
         | Statsmodels None \<Rightarrow> Raise (ValueError ''Model not supported yet.'')
         | Sklearn C penalty \<Rightarrow> Raise (ValueError ''Model not supported yet.''))
      else if module st = ''sklearn'' then
        (case fitted st of
           Statsmodels cov \<Rightarrow> Raise (AttributeError ''get_params'')
         | Sklearn C penalty \<Rightarrow>
             if C \<ge> 10 ^ 10 then
               (case (X_train, X_train_origin) of
                  (Some X, Some X_origin) \<Rightarrow>
                    bind_run (Xt_W_X_of lib X_origin X) (\<lambda>Xt_W_X.
                    bind_run (linalg_inv lib Xt_W_X) (\<lambda>cov.
                      Return (st\<lparr>cov_params := Some cov\<rparr>)))
                | _ \<Rightarrow> Raise AssertionError)
             else if penalty = ''l2'' then
               (case (X_train, X_train_origin) of
                  (Some X, Some X_origin) \<Rightarrow>
                    bind_run (Xt_W_X_of lib X_origin X) (\<lambda>Xt_W_X.
                    if C = 0 then Raise (ZeroDivisionError ''float division by zero'')
                    else
                    let lambda_c = 1 / C in
                    bind_run (np_mat_add Xt_W_X (mat_scale (2 * lambda_c) (np_identity (length Xt_W_X)))) (\<lambda>Omega.
                    bind_run (linalg_inv lib Omega) (\<lambda>invOmegaLambda.
                    bind_run (np_mat_mul invOmegaLambda Xt_W_X) (\<lambda>M.
                    bind_run (np_mat_mul M invOmegaLambda) (\<lambda>cov.
                      Return (st\<lparr>cov_params := Some cov\<rparr>))))))
                | _ \<Rightarrow> Raise AssertionError)
             else Raise (ValueError ''L1 Regularized Logit not supported yet.''))
      else Raise (PyException ''CovarianceNotSupported''))"

section \<open>Rounded arithmetic\<close>

text \<open>
  The floats of the code are IEEE doubles: an operation gives its exact result rounded to
  the nearest number of 53 significant bits, a tie going to the even neighbour. \<open>rne\<close>
  rounds a real number to the nearest integer in that way; \<open>double_at e\<close> rounds to the
  multiples of \<open>2 ^ (e - 52)\<close>, which are the doubles from \<open>2 ^ e\<close> to \<open>2 ^ (e + 1)\<close>; and
  \<open>double\<close> takes \<open>e\<close> from the number it rounds. The overflow to \<^verbatim>\<open>inf\<close> from
  \<open>2 ^ 1024\<close> on and the subnormal numbers under \<open>2 ^ (-1022)\<close> are left out.
\<close>

definition rne :: "real \<Rightarrow> int" where
  "rne v = (let f = \<lfloor>v\<rfloor> in
            if v - of_int f < 1 / 2 then f
            else if 1 / 2 < v - of_int f then f + 1
            else if even f then f else f + 1)"

definition double_at :: "int \<Rightarrow> real \<Rightarrow> real" where
  "double_at e v = of_int (rne (v / 2 powi (e - 52))) * 2 powi (e - 52)"

definition double :: "real \<Rightarrow> real" where
  "double v = (if v = 0 then 0 else double_at \<lfloor>log 2 \<bar>v\<bar>\<rfloor> v)"

text \<open>
  The array operations of the solver with the rounding \<open>rnd\<close> applied to the result of
  every multiplication, addition and subtraction. A dot product is summed from the first
  index on, each product and each partial sum rounded; \<^verbatim>\<open>x.dot(A)\<close> is the dot product
  of \<open>x\<close> with each column of \<open>A\<close>. (numpy leaves the order of these additions, and
  whether a product is rounded before it is added, to its BLAS library. The examples in
  doubles do not depend on either: their vectors have two entries, the second of which
  is zero in every product.)
\<close>

definition dot_fp :: "(real \<Rightarrow> real) \<Rightarrow> vec \<Rightarrow> vec \<Rightarrow> real" where
  "dot_fp rnd x y = foldl (\<lambda>acc (a, b). rnd (acc + rnd (a * b))) 0 (zip x y)"

definition np_dot_fp :: "(real \<Rightarrow> real) \<Rightarrow> vec \<Rightarrow> vec \<Rightarrow> real run" where
  "np_dot_fp rnd x y =
     (if length x = length y then Return (dot_fp rnd x y)
      else Raise (ValueError ''shapes not aligned''))"

definition column :: "mat \<Rightarrow> nat \<Rightarrow> vec" where
  "column A j = map (\<lambda>row. row ! j) A"

definition vec_mat_fp :: "(real \<Rightarrow> real) \<Rightarrow> nat \<Rightarrow> vec \<Rightarrow> mat \<Rightarrow> vec" where
  "vec_mat_fp rnd c x A = map (\<lambda>j. dot_fp rnd x (column A j)) [0..<c]"

definition np_vec_mat_fp :: "(real \<Rightarrow> real) \<Rightarrow> vec \<Rightarrow> mat \<Rightarrow> vec run" where
  "np_vec_mat_fp rnd x A =
     (if is_shape (length x) (ncols A) A then Return (vec_mat_fp rnd (ncols A) x A)
      else Raise (ValueError ''shapes not aligned''))"

definition quad_fp :: "(real \<Rightarrow> real) \<Rightarrow> vec \<Rightarrow> mat \<Rightarrow> vec \<Rightarrow> real run" where
  "quad_fp rnd x A y = bind_run (np_vec_mat_fp rnd x A) (\<lambda>xA. np_dot_fp rnd xA y)"

definition smult_fp :: "(real \<Rightarrow> real) \<Rightarrow> real \<Rightarrow> vec \<Rightarrow> vec" where
  "smult_fp rnd k x = map (\<lambda>a. rnd (k * a)) x"

definition np_add_fp :: "(real \<Rightarrow> real) \<Rightarrow> vec \<Rightarrow> vec \<Rightarrow> vec run" where
  "np_add_fp rnd x y =
     (if length x = length y then Return (map2 (\<lambda>a b. rnd (a + b)) x y)
      else if length x = 1 then Return (map (\<lambda>b. rnd (hd x + b)) y)
      else if length y = 1 then Return (map (\<lambda>a. rnd (a + hd y)) x)
      else Raise (ValueError ''operands could not be broadcast together''))"

definition outer_fp :: "(real \<Rightarrow> real) \<Rightarrow> vec \<Rightarrow> vec \<Rightarrow> mat" where
  "outer_fp rnd u v = map (\<lambda>ui. smult_fp rnd ui v) u"

definition mat_scale_fp :: "(real \<Rightarrow> real) \<Rightarrow> real \<Rightarrow> mat \<Rightarrow> mat" where
  "mat_scale_fp rnd k A = map (smult_fp rnd k) A"

definition np_mat_sub_fp :: "(real \<Rightarrow> real) \<Rightarrow> mat \<Rightarrow> mat \<Rightarrow> mat run" where
  "np_mat_sub_fp rnd A B =
     (if same_shape A B then Return (map2 (map2 (\<lambda>a b. rnd (a - b))) A B)
      else Raise (ValueError ''operands could not be broadcast together''))"

text \<open>
  \<^verbatim>\<open>__solve_lambda\<close> again, each operation rounded, in the order in which Python
  evaluates the expressions: \<^verbatim>\<open>2 * erfinv(2*alpha-1)**2 * cov_params\<close> is
  \<open>(2 * q\<^sup>2) * cov_params\<close>, \<^verbatim>\<open>4*a*c\<close> is \<open>(4 * a) * c\<close>, and \<^verbatim>\<open>DeltaEq2**0.5\<close> is taken
  as the rounded square root. With the identity for \<open>rnd\<close> these are the functions of
  exact arithmetic above; with \<open>double\<close> they compute as the code does, on the doubles
  that \<open>erfinv\<close> returns.
\<close>

definition residual_fp :: "(real \<Rightarrow> real) \<Rightarrow> real \<Rightarrow> vec \<Rightarrow> mat \<Rightarrow> vec \<Rightarrow> real run" where
  "residual_fp rnd q beta cov x_adv =
     bind_run (np_dot_fp rnd x_adv beta) (\<lambda>m.
     bind_run (quad_fp rnd x_adv cov x_adv) (\<lambda>s.
       if s < 0 then Raise (ValueError ''math domain error'')
       else Return \<bar>rnd (m + rnd (rnd (rnd (sqrt 2) * q) * rnd (sqrt s)))\<bar>))"

definition quadratic_coeffs_fp ::
  "(real \<Rightarrow> real) \<Rightarrow> vec \<Rightarrow> mat \<Rightarrow> real \<Rightarrow> vec \<Rightarrow> vec \<Rightarrow> (real \<times> real \<times> real) run" where
  "quadratic_coeffs_fp rnd beta cov q x delta =
     bind_run (np_mat_sub_fp rnd (outer_fp rnd beta beta)
                 (mat_scale_fp rnd (rnd (2 * rnd (q * q))) cov)) (\<lambda>A.
     bind_run (quad_fp rnd delta A delta) (\<lambda>a.
     bind_run (quad_fp rnd x A delta) (\<lambda>b1.
     bind_run (quad_fp rnd delta A x) (\<lambda>b2.
     bind_run (quad_fp rnd x A x) (\<lambda>c. Return (a, rnd (b1 + b2), c))))))"

definition solve_lambda_fp ::
  "(real \<Rightarrow> real) \<Rightarrow> (real \<Rightarrow> real) \<Rightarrow> engine \<Rightarrow> real \<Rightarrow> vec \<Rightarrow> int \<Rightarrow> vec \<Rightarrow> real \<Rightarrow> real \<Rightarrow>
   real option run" where
  "solve_lambda_fp rnd erfinv st alpha0 x y delta tol tol_underflow =
     bind_run (py_assert (y = 0 \<or> y = 1)) (\<lambda>_.
     let alpha = (if y = 0 then rnd (1 - alpha0) else alpha0) in
     case cov_params st of
       None \<Rightarrow> Raise (AttributeError ''cov_params'')
     | Some cov \<Rightarrow>
     bind_run (sp_erfinv erfinv (rnd (rnd (2 * alpha) - 1))) (\<lambda>q.
     bind_run (quadratic_coeffs_fp rnd (beta_hat st) cov q x delta) (\<lambda>(a, b, c).
     let DeltaEq2 = rnd (rnd (b * b) - rnd (rnd (4 * a) * c)) in
     if a < tol_underflow then Raise (ArithmeticError ''Risk of underflow'')
     else if \<bar>DeltaEq2\<bar> < tol \<and> DeltaEq2 \<le> 0 then
       (if a = 0 then NonFinite else Return (Some (rnd (- b / rnd (2 * a)))))
     else if DeltaEq2 < 0 then Return None
     else if DeltaEq2 > 0 then
       (if a = 0 then NonFinite
        else try_roots
               (\<lambda>lambda_star.
                  bind_run (np_add_fp rnd x (smult_fp rnd lambda_star delta))
                    (residual_fp rnd q (beta_hat st) cov))
               tol
               [rnd (rnd (- b - rnd (sqrt DeltaEq2)) / rnd (2 * a)),
                rnd (rnd (- b + rnd (sqrt DeltaEq2)) / rnd (2 * a))])
     else Raise (ValueError ''Error when solving the 2nd degree equation.''))))"

text \<open>
  \<^verbatim>\<open>compute_orthogonal_projection\<close> again, each operation rounded. The builtin \<^verbatim>\<open>sum\<close>
  adds the squares from the first one on.
\<close>

definition sum_sq_fp :: "(real \<Rightarrow> real) \<Rightarrow> vec \<Rightarrow> real" where
  "sum_sq_fp rnd v = foldl (\<lambda>acc b. rnd (acc + rnd (b * b))) 0 v"

definition compute_orthogonal_projection_fp :: "(real \<Rightarrow> real) \<Rightarrow> engine \<Rightarrow> vec \<Rightarrow> real \<Rightarrow> vec run" where
  "compute_orthogonal_projection_fp rnd st x overshoot =
     bind_run (np_dot_fp rnd x (beta_hat st)) (\<lambda>s.
       if minus0_is_0d st then Raise (TypeError ''numpy.float64 object is not iterable'')
       else if sum_sq_fp rnd (beta_hat_minus0 st) = 0 then
         (if model_has_intercept st \<and> length (beta_hat_minus0 st) < idx_beta0 st
          then Raise (IndexError ''index out of bounds'') else NonFinite)
       else
         let delta = smult_fp rnd (- rnd (s / sum_sq_fp rnd (beta_hat_minus0 st))) (beta_hat_minus0 st);
             delta = map (\<lambda>d. rnd (d * rnd (1 + overshoot))) delta
         in if model_has_intercept st then np_insert delta (idx_beta0 st) 0
            else Return delta)"

section \<open>Notions the properties are stated with\<close>

text \<open>The exact value of \<^verbatim>\<open>x.T.dot(A).dot(y)\<close> when the shapes fit.\<close>

definition bil :: "vec \<Rightarrow> mat \<Rightarrow> vec \<Rightarrow> real" where
  "bil x A y = dot (vec_mat (length y) x A) y"

text \<open>A positive semi-definite matrix, as the covariance of an estimate is.\<close>

definition psd :: "mat \<Rightarrow> bool" where
  "psd cov = (\<forall>v. length v = length cov \<longrightarrow> 0 \<le> bil v cov v)"

text \<open>The coefficients of the quadratic, with \<open>k = 2 * erfinv(2*alpha - 1)\<^sup>2\<close>: \<open>a\<close> and
  \<open>c\<close> are \<open>coeff_a\<close> at \<open>delta\<close> and at \<open>x\<close>, and \<open>b\<close> is \<open>coeff_b\<close>.\<close>

definition coeff_a :: "vec \<Rightarrow> mat \<Rightarrow> real \<Rightarrow> vec \<Rightarrow> real" where
  "coeff_a beta cov k delta = (dot delta beta)\<^sup>2 - k * bil delta cov delta"

definition coeff_b :: "vec \<Rightarrow> mat \<Rightarrow> real \<Rightarrow> vec \<Rightarrow> vec \<Rightarrow> real" where
  "coeff_b beta cov k x delta =
     2 * dot x beta * dot delta beta - k * (bil x cov delta + bil delta cov x)"

text \<open>The level the solver works with: \<^verbatim>\<open>if y == 0: alpha = 1-alpha\<close>.\<close>

definition flipped :: "int \<Rightarrow> real \<Rightarrow> real" where
  "flipped y level = (if y = 0 then 1 - level else level)"

text \<open>The residual of the unsquared equation at \<open>x + lam * delta\<close>, as the solver computes
  it for a candidate root.\<close>

definition residual_at ::
  "(real \<Rightarrow> real) \<Rightarrow> engine \<Rightarrow> mat \<Rightarrow> real \<Rightarrow> vec \<Rightarrow> int \<Rightarrow> vec \<Rightarrow> real \<Rightarrow> real run" where
  "residual_at erfinv st cov level x y delta lam =
     bind_run (np_add x (smult lam delta))
       (residual (erfinv (2 * flipped y level - 1)) (beta_hat st) cov)"

text \<open>The runtime types of \<^verbatim>\<open>alpha\<close> that the orchestrator takes.\<close>

definition accepted_alpha :: "py_alpha \<Rightarrow> bool" where
  "accepted_alpha a = (case a of PyFloat v \<Rightarrow> True | PyList vs \<Rightarrow> True | _ \<Rightarrow> False)"

text \<open>The projection before the overshoot and before the zero of the intercept.\<close>

definition projection_formula :: "engine \<Rightarrow> vec \<Rightarrow> vec" where
  "projection_formula st x =
     smult (- (dot x (beta_hat st) / sum_sq (beta_hat_minus0 st))) (beta_hat_minus0 st)"

text \<open>What the clipping makes of one coordinate.\<close>

definition clip_scalar :: "engine \<Rightarrow> real \<Rightarrow> real" where
  "clip_scalar st c =
     (let c1 = (if under_bound (lower_bound st) c then the (lower_bound st) else c)
      in if over_bound (upper_bound st) c1 then the (upper_bound st) else c1)"

text \<open>What a returned vector holds at the index of the intercept: the constant 1, or
  what the clipping makes of it.\<close>

definition intercept_image :: "engine \<Rightarrow> string \<Rightarrow> real" where
  "intercept_image st out_bounds = (if out_bounds = ''clipping'' then clip_scalar st 1 else 1)"

text \<open>A returned vector in the coordinates of the full coefficient vector, for an example
  of \<open>n\<close> features.\<close>

definition aligned :: "engine \<Rightarrow> string \<Rightarrow> nat \<Rightarrow> vec \<Rightarrow> bool" where
  "aligned st ob n v = (length v = Suc n \<and> v ! 0 = intercept_image st ob)"

text \<open>The dictionary of a level that the example meets as it is.\<close>

definition zero_result :: "real \<Rightarrow> vec option \<Rightarrow> vec option \<Rightarrow> result" where
  "zero_result a checked xa0 = \<lparr>alpha = a, lambda_star = 0, x_adv_star = checked, x_adv_0 = xa0\<rparr>"

text \<open>The dictionaries of a returned value, in the order of the levels.\<close>

fun results_of :: "perturbations \<Rightarrow> result list" where
  "results_of (Single r) = [r]"
| "results_of (Many rs) = rs"

text \<open>The same notions in rounded arithmetic: the level the solver works with, the value
  of \<open>erfinv\<close> it uses, the discriminant \<^verbatim>\<open>b**2 - 4*a*c\<close>, and the residual at a candidate
  root.\<close>

definition flipped_fp :: "(real \<Rightarrow> real) \<Rightarrow> int \<Rightarrow> real \<Rightarrow> real" where
  "flipped_fp rnd y level = (if y = 0 then rnd (1 - level) else level)"

definition erfinv_at :: "(real \<Rightarrow> real) \<Rightarrow> (real \<Rightarrow> real) \<Rightarrow> int \<Rightarrow> real \<Rightarrow> real" where
  "erfinv_at rnd erfinv y level = erfinv (rnd (rnd (2 * flipped_fp rnd y level) - 1))"

definition discriminant_fp :: "(real \<Rightarrow> real) \<Rightarrow> real \<Rightarrow> real \<Rightarrow> real \<Rightarrow> real" where
  "discriminant_fp rnd a b c = rnd (rnd (b * b) - rnd (rnd (4 * a) * c))"

definition residual_at_fp ::
  "(real \<Rightarrow> real) \<Rightarrow> (real \<Rightarrow> real) \<Rightarrow> engine \<Rightarrow> mat \<Rightarrow> real \<Rightarrow> vec \<Rightarrow> int \<Rightarrow> vec \<Rightarrow> real \<Rightarrow> real run" where
  "residual_at_fp rnd erfinv st cov level x y delta lam =
     bind_run (np_add_fp rnd x (smult_fp rnd lam delta))
       (residual_fp rnd (erfinv_at rnd erfinv y level) (beta_hat st) cov)"

section \<open>Example inputs\<close>

text \<open>
  The closed examples need values of the two library functions. \<open>erfinv_ex\<close> has the sign
  of its argument and the size \<open>sqrt 2 / 2\<close>, the value of the true function at
  \<open>erf (sqrt 2 / 2)\<close>, about 0.6827: that is level 0.8413, the one-sigma quantile, for which
  \<open>sqrt 2 * erfinv (2 * alpha - 1) = 1\<close>. The examples with \<open>y = 1\<close> use that level.
  \<open>norm_cdf_ex\<close> is right at the mean and lies in the unit interval elsewhere; the examples
  ask it only whether a probability is at least 0.
\<close>

definition erfinv_ex :: "real \<Rightarrow> real" where
  "erfinv_ex p = (if p = 0 then 0 else if 0 < p then sqrt 2 / 2 else - (sqrt 2 / 2))"

definition norm_cdf_ex :: "real \<Rightarrow> real \<Rightarrow> real \<Rightarrow> real" where
  "norm_cdf_ex v loc scale = (if v < loc then 1 / 4 else if v = loc then 1 / 2 else 3 / 4)"

definition lib_ex :: library where
  "lib_ex = \<lparr> predict_proba = (\<lambda>X. Raise (ValueError ''not fitted'')),
              linalg_inv = (\<lambda>M. Raise (ValueError ''Singular matrix'')),
              sm_add_constant = map ((#) 1) \<rparr>"

text \<open>The scenario of the specification: an sklearn model with intercept 0 and
  coefficients \<open>[2, -1]\<close>, covariance a hundredth of the identity; here with features
  bounded to the unit interval.\<close>

definition ex_engine :: engine where
  "ex_engine = \<lparr> module = ''sklearn'', fitted = Sklearn 1 ''l2'', X_has_constant = False,
     model_has_intercept = True, beta_hat = [0, 2, - 1], beta_hat_minus0 = [2, - 1], idx_beta0 = 0,
     cov_params = Some [[1 / 100, 0, 0], [0, 1 / 100, 0], [0, 0, 1 / 100]],
     lower_bound = Some 0, upper_bound = Some 1 \<rparr>"

text \<open>A model without intercept, coefficients \<open>[1, 0]\<close>, with the given covariance.\<close>

definition plain_engine :: "mat \<Rightarrow> engine" where
  "plain_engine cov = \<lparr> module = ''sklearn'', fitted = Sklearn 1 ''l2'', X_has_constant = False,
     model_has_intercept = False, beta_hat = [1, 0], beta_hat_minus0 = [1, 0], idx_beta0 = 0,
     cov_params = Some cov, lower_bound = None, upper_bound = None \<rparr>"

text \<open>A model whose two coefficients are zero beside an intercept of a half.\<close>

definition flat_engine :: engine where
  "flat_engine = \<lparr> module = ''sklearn'', fitted = Sklearn 1 ''l2'', X_has_constant = False,
     model_has_intercept = True, beta_hat = [1 / 2, 0, 0], beta_hat_minus0 = [0, 0], idx_beta0 = 0,
     cov_params = None, lower_bound = None, upper_bound = None \<rparr>"

text \<open>An sklearn model fitted on a single feature: \<^verbatim>\<open>coef_ = [[2.0]]\<close> and
  \<^verbatim>\<open>intercept_ = [0.5]\<close>, so \<^verbatim>\<open>beta_hat = [0.5, 2.0]\<close> and \<^verbatim>\<open>beta_hat_minus0\<close> is the
  0-d array of 2.0.\<close>

definition one_feature_engine :: engine where
  "one_feature_engine = \<lparr> module = ''sklearn'', fitted = Sklearn 1 ''l2'', X_has_constant = False,
     model_has_intercept = True, beta_hat = [1 / 2, 2], beta_hat_minus0 = [2], idx_beta0 = 0,
     cov_params = None, lower_bound = None, upper_bound = None \<rparr>"

text \<open>A statsmodels GLM with a constant and one feature, which reports its covariance.\<close>

definition glm_engine :: engine where
  "glm_engine = \<lparr> module = ''statsmodels'',
     fitted = Statsmodels (Some [[1 / 4, 0], [0, 1 / 4]]), X_has_constant = True,
     model_has_intercept = True, beta_hat = [1 / 2, 1], beta_hat_minus0 = [1], idx_beta0 = 0,
     cov_params = None, lower_bound = None, upper_bound = None \<rparr>"

section \<open>Vectors and matrices\<close>

lemma dot_Nil [simp]: "dot [] y = 0" "dot x [] = 0"
  by (simp_all add: dot_def)

lemma dot_Cons [simp]: "dot (a # x) (b # y) = a * b + dot x y"
  by (simp add: dot_def)

lemma dot_vadd_left: "length x = length y \<Longrightarrow> length y = length z \<Longrightarrow> dot (vadd x y) z = dot x z + dot y z"
  by (induction x y z rule: list_induct3) (simp_all add: vadd_def algebra_simps)

lemma dot_vadd_right: "length x = length y \<Longrightarrow> length y = length z \<Longrightarrow> dot x (vadd y z) = dot x y + dot x z"
  by (induction x y z rule: list_induct3) (simp_all add: vadd_def algebra_simps)

lemma dot_smult_left: "dot (smult k x) y = k * dot x y"
  by (induction x arbitrary: y) (case_tac y; simp add: smult_def algebra_simps)+

lemma dot_smult_right: "dot x (smult k y) = k * dot x y"
  by (induction x arbitrary: y) (case_tac y; simp add: smult_def algebra_simps)+

lemma dot_replicate_zero [simp]: "dot (replicate n 0) y = 0"
  by (induction n arbitrary: y) (case_tac y; simp)+

lemma length_vadd [simp]: "length (vadd x y) = min (length x) (length y)"
  by (simp add: vadd_def)

lemma length_smult [simp]: "length (smult k x) = length x"
  by (simp add: smult_def)

lemma nth_vadd [simp]: "i < length x \<Longrightarrow> i < length y \<Longrightarrow> vadd x y ! i = x ! i + y ! i"
  by (simp add: vadd_def)

lemma nth_smult [simp]: "i < length x \<Longrightarrow> smult k x ! i = k * x ! i"
  by (simp add: smult_def)

lemma length_vec_mat [simp]: "list_all (\<lambda>row. length row = c) A \<Longrightarrow> length (vec_mat c x A) = c"
  by (induction c x A rule: vec_mat.induct) simp_all

lemma vec_mat_vadd:
  "length u = length v \<Longrightarrow> length v = length A \<Longrightarrow> list_all (\<lambda>row. length row = c) A \<Longrightarrow>
   vec_mat c (vadd u v) A = vadd (vec_mat c u A) (vec_mat c v A)"
proof (induction u v A rule: list_induct3)
  case Nil
  show ?case by (simp add: vadd_def)
next
  case (Cons ui u vi v row A)
  then have IH: "vec_mat c (vadd u v) A = vadd (vec_mat c u A) (vec_mat c v A)"
    and row: "length row = c" and rows: "list_all (\<lambda>row. length row = c) A" by simp_all
  have "vadd (ui # u) (vi # v) = (ui + vi) # vadd u v" by (simp add: vadd_def)
  then show ?case using row rows
    by (simp add: IH) (rule nth_equalityI; simp add: algebra_simps)
qed

lemma vec_mat_smult:
  "list_all (\<lambda>row. length row = c) A \<Longrightarrow> vec_mat c (smult s u) A = smult s (vec_mat c u A)"
proof (induction c u A rule: vec_mat.induct)
  case (1 c xi x row A)
  then have IH: "vec_mat c (smult s x) A = smult s (vec_mat c x A)"
    and row: "length row = c" and rows: "list_all (\<lambda>row. length row = c) A" by simp_all
  have "smult s (xi # x) = (s * xi) # smult s x" by (simp add: smult_def)
  then show ?case using row rows
    by (simp add: IH) (rule nth_equalityI; simp add: algebra_simps)
qed (simp_all add: smult_def)

lemma bil_vadd_left:
  "length u = n \<Longrightarrow> length v = n \<Longrightarrow> length y = n \<Longrightarrow> is_shape n n A \<Longrightarrow>
   bil (vadd u v) A y = bil u A y + bil v A y"
  by (simp add: bil_def is_shape_def vec_mat_vadd dot_vadd_left)

lemma bil_smult_left:
  "length y = n \<Longrightarrow> is_shape n n A \<Longrightarrow> bil (smult s u) A y = s * bil u A y"
  by (simp add: bil_def is_shape_def vec_mat_smult dot_smult_left)

lemma bil_vadd_right:
  "length u = n \<Longrightarrow> length y = n \<Longrightarrow> length z = n \<Longrightarrow> is_shape n n A \<Longrightarrow>
   bil u A (vadd y z) = bil u A y + bil u A z"
  by (simp add: bil_def is_shape_def dot_vadd_right)

lemma bil_smult_right:
  "length y = n \<Longrightarrow> is_shape n n A \<Longrightarrow> bil u A (smult s y) = s * bil u A y"
  by (simp add: bil_def is_shape_def dot_smult_right)

lemma ncols_shape: "is_shape n n A \<Longrightarrow> ncols A = n"
  by (cases A) (auto simp: is_shape_def ncols_def)

lemma quad_square:
  "is_shape n n A \<Longrightarrow> length x = n \<Longrightarrow> length y = n \<Longrightarrow> quad x A y = Return (bil x A y)"
  by (simp add: quad_def np_vec_mat_def ncols_shape np_dot_def bil_def) (simp add: is_shape_def)

lemma dot_commute: "dot x y = dot y x"
  by (induction x arbitrary: y) (case_tac y; simp)+

lemma dot_map2_minus: "length u = length v \<Longrightarrow> length v = length y \<Longrightarrow> dot (map2 (-) u v) y = dot u y - dot v y"
  by (induction u v y rule: list_induct3) (simp_all add: algebra_simps)

lemma vec_mat_outer: "length x = length u \<Longrightarrow> length v = c \<Longrightarrow> vec_mat c x (outer u v) = smult (dot x u) v"
proof (induction x u rule: list_induct2)
  case Nil
  then show ?case by (simp add: outer_def) (rule nth_equalityI; simp)
next
  case (Cons xi x ui u)
  then have IH: "vec_mat c x (outer u v) = smult (dot x u) v" by simp
  have "outer (ui # u) v = smult ui v # outer u v" by (simp add: outer_def)
  then show ?case using Cons.prems
    by (simp add: IH) (rule nth_equalityI; simp add: algebra_simps)
qed

lemma vec_mat_mat_scale:
  "list_all (\<lambda>row. length row = c) A \<Longrightarrow> vec_mat c x (mat_scale k A) = smult k (vec_mat c x A)"
proof (induction c x A rule: vec_mat.induct)
  case (1 c xi x row A)
  then have IH: "vec_mat c x (mat_scale k A) = smult k (vec_mat c x A)"
    and row: "length row = c" and rows: "list_all (\<lambda>row. length row = c) A" by simp_all
  have "mat_scale k (row # A) = smult k row # mat_scale k A" by (simp add: mat_scale_def)
  then show ?case using row rows
    by (simp add: IH) (rule nth_equalityI; simp add: algebra_simps)
qed (simp_all add: smult_def mat_scale_def)

lemma vec_mat_mat_sub:
  "length x = length A \<Longrightarrow> length A = length B \<Longrightarrow> list_all (\<lambda>row. length row = c) A \<Longrightarrow>
   list_all (\<lambda>row. length row = c) B \<Longrightarrow>
   vec_mat c x (mat_sub A B) = map2 (-) (vec_mat c x A) (vec_mat c x B)"
proof (induction x A B rule: list_induct3)
  case Nil
  show ?case by (simp add: mat_sub_def)
next
  case (Cons xi x ra A rb B)
  then have IH: "vec_mat c x (mat_sub A B) = map2 (-) (vec_mat c x A) (vec_mat c x B)"
    and ra: "length ra = c" and rb: "length rb = c"
    and rows: "list_all (\<lambda>row. length row = c) A" "list_all (\<lambda>row. length row = c) B" by simp_all
  have "mat_sub (ra # A) (rb # B) = map2 (-) ra rb # mat_sub A B" by (simp add: mat_sub_def)
  then show ?case using ra rb rows
    by (simp add: IH) (rule nth_equalityI; simp add: algebra_simps)
qed

lemma is_shape_outer: "is_shape (length u) (length v) (outer u v)"
  by (simp add: is_shape_def outer_def list_all_iff)

lemma is_shape_mat_scale: "is_shape r c (mat_scale k A) = is_shape r c A"
  by (simp add: is_shape_def mat_scale_def list_all_iff)

lemma is_shape_mat_sub: "is_shape r c A \<Longrightarrow> is_shape r c B \<Longrightarrow> is_shape r c (mat_sub A B)"
  by (auto simp: is_shape_def mat_sub_def list_all_iff elim!: in_set_zipE)

lemma ncols_outer: "ncols (outer u u) = length u"
  by (cases u) (simp_all add: ncols_def outer_def)

lemma length_outer [simp]: "length (outer u v) = length u"
  by (simp add: outer_def)

lemma same_shape_outer: "same_shape (outer u u) B = is_shape (length u) (length u) B"
  using is_shape_outer [of u u] by (simp add: same_shape_def ncols_outer)

lemma bil_solver_matrix:
  assumes "is_shape n n cov" "length beta = n" "length x = n" "length y = n"
  shows "bil x (mat_sub (outer beta beta) (mat_scale k cov)) y = dot x beta * dot y beta - k * bil x cov y"
proof -
  have rows: "list_all (\<lambda>row. length row = n) cov" "length cov = n"
    using assms(1) by (simp_all add: is_shape_def)
  have o: "list_all (\<lambda>row. length row = n) (outer beta beta)" "length (outer beta beta) = n"
    using is_shape_outer [of beta beta] assms(2) by (simp_all add: is_shape_def)
  have s: "list_all (\<lambda>row. length row = n) (mat_scale k cov)" "length (mat_scale k cov) = n"
    using assms(1) is_shape_mat_scale [of n n k cov] by (simp_all add: is_shape_def)
  have "vec_mat n x (mat_sub (outer beta beta) (mat_scale k cov))
        = map2 (-) (smult (dot x beta) beta) (smult k (vec_mat n x cov))"
    using assms o s rows by (simp add: vec_mat_mat_sub vec_mat_outer vec_mat_mat_scale)
  then show ?thesis using assms rows
    by (simp add: bil_def dot_map2_minus dot_smult_left dot_commute [of beta y])
qed

lemma bind_run_Return_iff: "bind_run m f = Return v \<longleftrightarrow> (\<exists>a. m = Return a \<and> f a = Return v)"
  by (cases m) simp_all

lemma quad_Return_shape:
  "quad x A y = Return v \<Longrightarrow> is_shape n n A \<Longrightarrow> length x = n \<and> length y = n"
  by (auto simp: quad_def bind_run_Return_iff np_vec_mat_def np_dot_def ncols_shape is_shape_def split: if_splits)

lemma smult_one [simp]: "smult 1 x = x"
  by (induction x) (simp_all add: smult_def)

lemma bil_combination:
  assumes "is_shape n n A" "length u = n" "length v = n"
  shows "bil (vadd (smult s u) (smult t v)) A (vadd (smult s u) (smult t v)) =
           s\<^sup>2 * bil u A u + s * t * (bil u A v + bil v A u) + t\<^sup>2 * bil v A v"
  using assms
  by (simp add: bil_vadd_left [of _ n] bil_vadd_right [of _ n] bil_smult_left [of _ n]
      bil_smult_right [of _ n] power2_eq_square algebra_simps)

lemma bil_2: "bil [x1, x2] [[a11, a12], [a21, a22]] [y1, y2]
   = (x1 * a11 + x2 * a21) * y1 + (x1 * a12 + x2 * a22) * y2"
  by (simp add: bil_def vadd_def smult_def)

lemma quad_2: "quad [x1, x2] [[a11, a12], [a21, a22]] [y1, y2]
   = Return ((x1 * a11 + x2 * a21) * y1 + (x1 * a12 + x2 * a22) * y2)"
  by (simp add: quad_square [of 2] is_shape_def bil_2)

lemma dot_self: "dot v v = sum_sq v"
  by (induction v) (simp_all add: sum_sq_def)

lemma dot_insert_zero:
  assumes "i < length b"
  shows "dot (take i d @ [0] @ drop i d) b = dot d (take i b @ drop (Suc i) b)"
  using assms
proof (induction i arbitrary: d b)
  case 0
  then show ?case by (cases b) (simp_all add: drop_Suc)
next
  case (Suc i)
  then obtain b0 bs where b: "b = b0 # bs" by (cases b) auto
  show ?case
  proof (cases d)
    case Nil
    then show ?thesis using b by simp
  next
    case (Cons d0 ds)
    then show ?thesis using Suc b by simp
  qed
qed

lemma sum_sq_nonneg: "0 \<le> sum_sq v"
  by (induction v) (simp_all add: sum_sq_def)

lemma sum_sq_Cons: "sum_sq (b # v) = b * b + sum_sq v"
  by (simp add: sum_sq_def)

lemma sum_sq_zero_iff: "sum_sq v = 0 \<longleftrightarrow> list_all (\<lambda>b. b = 0) v"
proof (induction v)
  case Nil
  show ?case by (simp add: sum_sq_def)
next
  case (Cons b v)
  have "b * b + sum_sq v = 0 \<longleftrightarrow> b * b = 0 \<and> sum_sq v = 0"
    using sum_sq_nonneg [of v] by (intro add_nonneg_eq_0_iff) simp_all
  then show ?case using Cons by (simp add: sum_sq_Cons)
qed

section \<open>The bounds\<close>

lemma clip_lower_nth: "i < length v \<Longrightarrow> clip_lower lb v ! i = (if under_bound lb (v ! i) then the lb else v ! i)"
  by (cases lb) (simp_all add: clip_lower_def under_bound_def)

lemma clip_upper_nth: "i < length v \<Longrightarrow> clip_upper ub v ! i = (if over_bound ub (v ! i) then the ub else v ! i)"
  by (cases ub) (simp_all add: clip_upper_def over_bound_def)

lemma length_clip_lower [simp]: "length (clip_lower lb v) = length v"
  by (cases lb) (simp_all add: clip_lower_def)

lemma length_clip_upper [simp]: "length (clip_upper ub v) = length v"
  by (cases ub) (simp_all add: clip_upper_def)

lemma clip_lower_noop: "\<not> list_ex (under_bound lb) v \<Longrightarrow> clip_lower lb v = v"
  by (cases lb) (auto simp: clip_lower_def under_bound_def list_ex_iff intro: map_idI)

lemma clip_upper_noop: "\<not> list_ex (over_bound ub) v \<Longrightarrow> clip_upper ub v = v"
  by (cases ub) (auto simp: clip_upper_def over_bound_def list_ex_iff intro: map_idI)

lemma check_bounds_clipping:
  "check_bounds st x ''clipping'' = Return (Some (clip_upper (upper_bound st) (clip_lower (lower_bound st) x)))"
  by (simp add: check_bounds_def Let_def clip_lower_noop clip_upper_noop)

lemma check_bounds_nothing: "check_bounds st x ''nothing'' = Return (Some x)"
  by (simp add: check_bounds_def Let_def)

lemma check_bounds_missing:
  "check_bounds st x ''missing'' = Return (if list_ex (out_of_range st) x then None else Some x)"
  by (auto simp add: check_bounds_def Let_def out_of_range_def list_ex_iff)

lemma clip_scalar_idem: "clip_scalar st (clip_scalar st c) = clip_scalar st c"
  by (auto simp: clip_scalar_def under_bound_def over_bound_def Let_def split: option.splits)

lemma clip_nth:
  "i < length x \<Longrightarrow> clip_upper (upper_bound st) (clip_lower (lower_bound st) x) ! i = clip_scalar st (x ! i)"
  by (simp add: clip_upper_nth clip_lower_nth clip_scalar_def Let_def)

lemma clip_idem:
  fixes st :: engine
  shows "clip_upper (upper_bound st) (clip_lower (lower_bound st)
     (clip_upper (upper_bound st) (clip_lower (lower_bound st) x)))
   = clip_upper (upper_bound st) (clip_lower (lower_bound st) x)"
proof (rule nth_equalityI)
  fix i assume "i < length (clip_upper (upper_bound st) (clip_lower (lower_bound st)
     (clip_upper (upper_bound st) (clip_lower (lower_bound st) x))))"
  then have i: "i < length x" by simp
  then have i': "i < length (clip_upper (upper_bound st) (clip_lower (lower_bound st) x))" by simp
  show "clip_upper (upper_bound st) (clip_lower (lower_bound st)
     (clip_upper (upper_bound st) (clip_lower (lower_bound st) x))) ! i
     = clip_upper (upper_bound st) (clip_lower (lower_bound st) x) ! i"
    by (simp only: clip_nth [OF i'] clip_nth [OF i] clip_scalar_idem)
qed simp

lemma check_bounds_cases:
  assumes "check_bounds st x ob = r"
  obtains "ob = ''clipping''" | "ob = ''missing''" | "ob = ''nothing''" | "r = Raise AssertionError"
  using assms by (auto simp: check_bounds_def split: if_splits)

lemma check_bounds_idem:
  assumes "check_bounds st x ob = Return (Some v)"
  shows "check_bounds st v ob = Return (Some v)"
proof (rule check_bounds_cases [OF assms])
  assume "ob = ''clipping''"
  then show ?thesis using assms by (auto simp: check_bounds_clipping clip_idem)
next
  assume "ob = ''missing''"
  then show ?thesis using assms by (auto simp: check_bounds_missing split: if_splits)
next
  assume "ob = ''nothing''"
  then show ?thesis using assms by (auto simp: check_bounds_nothing)
qed simp

lemma check_bounds_head:
  assumes "check_bounds st z ob = Return (Some v)" and "0 < length z"
  shows "length v = length z \<and> v ! 0 = (if ob = ''clipping'' then clip_scalar st (z ! 0) else z ! 0)"
proof (rule check_bounds_cases [OF assms(1)])
  assume "ob = ''clipping''"
  then show ?thesis using assms by (auto simp: check_bounds_clipping clip_nth)
next
  assume "ob = ''missing''"
  then show ?thesis using assms by (auto simp: check_bounds_missing split: if_splits)
next
  assume "ob = ''nothing''"
  then show ?thesis using assms by (auto simp: check_bounds_nothing)
qed simp

lemma ex_beta: "beta_hat ex_engine = [0, 2, - 1]" "beta_hat_minus0 ex_engine = [2, - 1]"
  "model_has_intercept ex_engine" "\<not> X_has_constant ex_engine" "idx_beta0 ex_engine = 0"
  "cov_params ex_engine = Some [[1 / 100, 0, 0], [0, 1 / 100, 0], [0, 0, 1 / 100]]"
  "lower_bound ex_engine = Some 0" "upper_bound ex_engine = Some 1"
  by (simp_all add: ex_engine_def)

lemma ex_inv: "engine_inv ex_engine"
  by (simp add: engine_inv_def ex_engine_def)

text \<open>
  Claim C8. Let a vector have a coordinate out of the range of the bounds. In the mode
  \<^verbatim>\<open>missing\<close> (discard) the enforcer returns \<^verbatim>\<open>None\<close> for the whole vector, in the
  mode \<^verbatim>\<open>nothing\<close> (ignore) it returns the vector as it is, and in the mode
  \<^verbatim>\<open>clipping\<close> it returns a vector of the same length in which every coordinate over the
  upper bound is the upper bound, every coordinate under the lower bound is the lower
  bound, and every coordinate in range is unchanged. The lower bound is applied first, so
  the clause of the lower bound is for bounds that leave a range (lower at most upper).
\<close>

theorem check_bounds_modes:
  assumes "list_ex (out_of_range st) x"
  shows "check_bounds st x ''missing'' = Return None \<and>
         check_bounds st x ''nothing'' = Return (Some x) \<and>
         (\<exists>v. check_bounds st x ''clipping'' = Return (Some v) \<and> length v = length x \<and>
            (\<forall>i<length x.
               (\<forall>u. upper_bound st = Some u \<and> u < x ! i \<longrightarrow> v ! i = u) \<and>
               (\<forall>l. lower_bound st = Some l \<and> x ! i < l \<and> bounds_ordered st \<longrightarrow> v ! i = l) \<and>
               (\<not> out_of_range st (x ! i) \<longrightarrow> v ! i = x ! i)))"
proof -
  let ?v = "clip_upper (upper_bound st) (clip_lower (lower_bound st) x)"
  have "\<forall>i<length x.
               (\<forall>u. upper_bound st = Some u \<and> u < x ! i \<longrightarrow> ?v ! i = u) \<and>
               (\<forall>l. lower_bound st = Some l \<and> x ! i < l \<and> bounds_ordered st \<longrightarrow> ?v ! i = l) \<and>
               (\<not> out_of_range st (x ! i) \<longrightarrow> ?v ! i = x ! i)"
    by (auto simp: clip_upper_nth clip_lower_nth over_bound_def under_bound_def out_of_range_def bounds_ordered_def
        split: option.splits)
  then show ?thesis using assms
    by (simp add: check_bounds_missing check_bounds_nothing check_bounds_clipping)
qed

text \<open>
  The theorem at the bounds 0 and 1 and the vector \<open>[1/2, 3, -1]\<close>.
\<close>

theorem check_bounds_modes_witness:
  "list_ex (out_of_range ex_engine) [1 / 2, 3, - 1] \<and>
   check_bounds ex_engine [1 / 2, 3, - 1] ''missing'' = Return None \<and>
   check_bounds ex_engine [1 / 2, 3, - 1] ''nothing'' = Return (Some [1 / 2, 3, - 1]) \<and>
   check_bounds ex_engine [1 / 2, 3, - 1] ''clipping'' = Return (Some [1 / 2, 1, 0])"
proof -
  have h: "list_ex (out_of_range ex_engine) [1 / 2, 3, - 1]"
    by (simp add: out_of_range_def ex_beta under_bound_def over_bound_def)
  have c: "check_bounds ex_engine [1 / 2, 3, - 1] ''clipping'' = Return (Some [1 / 2, 1, 0])"
    by (simp add: check_bounds_clipping ex_beta clip_lower_def clip_upper_def)
  from check_bounds_modes [OF h] c show ?thesis using h by simp
qed

section \<open>The orthogonal projection\<close>

text \<open>
  The projection on the hyperplane. For an engine as \<^verbatim>\<open>__init__\<close> builds it, with two
  coefficients or more beside the intercept, not all zero, and an example \<open>x\<close> of the
  length of the full coefficient vector, the projection with overshoot 0 returns
  \<open>delta = -(x . beta_hat / sum(beta_hat_minus0\<^sup>2)) * beta_hat_minus0\<close>, with a zero put in at the
  index of the intercept when the model has one, and \<open>x + delta\<close> dotted with the full
  coefficient vector is 0.
\<close>

lemma projection_on_hyperplane:
  assumes inv: "engine_inv st"
    and nd: "\<not> minus0_is_0d st"
    and nz: "\<not> list_all (\<lambda>b. b = 0) (beta_hat_minus0 st)"
    and len: "length x = length (beta_hat st)"
  shows "\<exists>delta. compute_orthogonal_projection st x 0 = Return delta \<and>
           length delta = length x \<and>
           delta = (if model_has_intercept st
                    then take (idx_beta0 st) (projection_formula st x) @ [0] @
                         drop (idx_beta0 st) (projection_formula st x)
                    else projection_formula st x) \<and>
           np_dot (vadd x delta) (beta_hat st) = Return 0"
proof -
  let ?bm = "beta_hat_minus0 st" and ?b = "beta_hat st"
  let ?p = "projection_formula st x"
  have ss: "sum_sq ?bm \<noteq> 0" using nz by (simp add: sum_sq_zero_iff)
  have lp: "length ?p = length ?bm" by (simp add: projection_formula_def smult_def)
  have dp: "dot ?p ?bm = - dot x ?b"
    using ss by (simp add: projection_formula_def dot_smult_left dot_self)
  show ?thesis
  proof (cases "model_has_intercept st")
    case True
    let ?i = "idx_beta0 st"
    let ?d = "take ?i ?p @ [0] @ drop ?i ?p"
    from inv True have i: "?i < length ?b" and bm: "?bm = take ?i ?b @ drop (Suc ?i) ?b"
      by (simp_all add: engine_inv_def)
    have lbm: "Suc (length ?bm) = length ?b" using i by (subst bm) simp
    have ile: "?i \<le> length ?p" using i lbm lp by simp
    have ld: "length ?d = length ?b" using ile lbm lp by simp
    have "dot ?d ?b = dot ?p ?bm" using dot_insert_zero [OF i, of ?p] bm by simp
    then have "dot (vadd x ?d) ?b = 0" using dp len ld by (simp add: dot_vadd_left)
    moreover have "compute_orthogonal_projection st x 0 = Return ?d"
      using True ss len ile nd
      by (simp add: compute_orthogonal_projection_def np_dot_def np_insert_def projection_formula_def Let_def)
    ultimately show ?thesis using True ld len by (simp add: np_dot_def vadd_def)
  next
    case False
    from inv False have bm: "?bm = ?b" by (simp add: engine_inv_def)
    have "dot (vadd x ?p) ?b = 0" using dp len lp bm by (simp add: dot_vadd_left)
    moreover have "compute_orthogonal_projection st x 0 = Return ?p"
      using False ss len nd
      by (simp add: compute_orthogonal_projection_def np_dot_def projection_formula_def Let_def)
    ultimately show ?thesis using False lp len bm by (simp add: np_dot_def vadd_def)
  qed
qed

text \<open>
  The scenario of the specification and the aligned example \<open>[1, 2, 3]\<close>.
\<close>

lemma projection_on_hyperplane_ex:
  "engine_inv ex_engine \<and> \<not> minus0_is_0d ex_engine \<and>
   \<not> list_all (\<lambda>b. b = 0) (beta_hat_minus0 ex_engine) \<and>
   length [1, 2, 3 :: real] = length (beta_hat ex_engine) \<and>
   compute_orthogonal_projection ex_engine [1, 2, 3] 0 = Return [0, - (2 / 5), 1 / 5] \<and>
   np_dot (vadd [1, 2, 3] [0, - (2 / 5), 1 / 5]) (beta_hat ex_engine) = Return 0"
proof -
  have d: "\<not> minus0_is_0d ex_engine" by (simp add: minus0_is_0d_def ex_beta)
  have n: "\<not> list_all (\<lambda>b. b = 0) (beta_hat_minus0 ex_engine)" by (simp add: ex_beta)
  have l: "length [1, 2, 3 :: real] = length (beta_hat ex_engine)" by (simp add: ex_beta)
  have e: "compute_orthogonal_projection ex_engine [1, 2, 3] 0 = Return [0, - (2 / 5), 1 / 5]"
    using d
    by (simp add: compute_orthogonal_projection_def ex_beta np_dot_def sum_sq_def smult_def np_insert_def Let_def)
  from projection_on_hyperplane [OF ex_inv d n l] e
  have "np_dot (vadd [1, 2, 3] [0, - (2 / 5), 1 / 5]) (beta_hat ex_engine) = Return 0" by auto
  then show ?thesis using ex_inv d n l e by simp
qed

text \<open>
  Claim C2 says that for every coefficient vector whose part without the intercept is not
  zero and every example, the projection with overshoot 0 gives a \<open>delta\<close> with
  \<open>(x + delta) . beta_hat = 0\<close>. At a model of a single feature the code does not get that
  far: the engine is as \<^verbatim>\<open>__init__\<close> builds it, the coefficient 2 is not zero, the aligned
  example \<open>[1, 1]\<close> has the length of \<open>beta_hat\<close>, and the projection raises the
  \<^verbatim>\<open>TypeError\<close> of \<^verbatim>\<open>sum\<close> on the squeezed coefficient.
\<close>

theorem one_feature_projection:
  "engine_inv one_feature_engine \<and>
   \<not> list_all (\<lambda>b. b = 0) (beta_hat_minus0 one_feature_engine) \<and>
   length [1, 1 :: real] = length (beta_hat one_feature_engine) \<and>
   compute_orthogonal_projection one_feature_engine [1, 1] 0
     = Raise (TypeError ''numpy.float64 object is not iterable'')"
  by (simp add: one_feature_engine_def engine_inv_def minus0_is_0d_def
      compute_orthogonal_projection_def np_dot_def)

text \<open>
  Claim C6, as the code has it. Let the coefficients without the intercept, two or more,
  be all zero, in an engine as \<^verbatim>\<open>__init__\<close> builds it. Nothing guards the division by the
  sum of their squares: the projection raises no exception of its own, the division is
  done and gives \<^verbatim>\<open>inf\<close> or \<^verbatim>\<open>nan\<close>, and the function returns an array that holds
  \<^verbatim>\<open>nan\<close> at every coefficient. The one exception left is the shape error of
  \<^verbatim>\<open>x.dot(beta_hat)\<close>, which comes first.
\<close>

theorem projection_zero_norm:
  assumes inv: "engine_inv st"
    and zero: "list_all (\<lambda>b. b = 0) (beta_hat_minus0 st)"
    and nd: "\<not> minus0_is_0d st"
  shows "compute_orthogonal_projection st x overshoot =
           (if length x = length (beta_hat st) then NonFinite
            else Raise (ValueError ''shapes not aligned''))"
proof -
  have "idx_beta0 st \<le> length (beta_hat_minus0 st)" if i: "model_has_intercept st"
  proof -
    from inv i have l: "idx_beta0 st < length (beta_hat st)"
      and bm: "beta_hat_minus0 st = take (idx_beta0 st) (beta_hat st) @ drop (Suc (idx_beta0 st)) (beta_hat st)"
      by (simp_all add: engine_inv_def)
    have "Suc (length (beta_hat_minus0 st)) = length (beta_hat st)" using l by (subst bm) simp
    then show ?thesis using l by simp
  qed
  then show ?thesis
    using zero nd by (auto simp add: compute_orthogonal_projection_def np_dot_def sum_sq_zero_iff)
qed

text \<open>
  The theorem at a model with intercept 1/2 and two zero coefficients.
\<close>

theorem projection_zero_norm_witness:
  "engine_inv flat_engine \<and> list_all (\<lambda>b. b = 0) (beta_hat_minus0 flat_engine) \<and>
   \<not> minus0_is_0d flat_engine \<and>
   compute_orthogonal_projection flat_engine [1, 1, 1] (1 / 10 ^ 6) = NonFinite \<and>
   compute_orthogonal_projection flat_engine [1, 1] (1 / 10 ^ 6) = Raise (ValueError ''shapes not aligned'')"
proof -
  have i: "engine_inv flat_engine" by (simp add: flat_engine_def engine_inv_def)
  have z: "list_all (\<lambda>b. b = 0) (beta_hat_minus0 flat_engine)" by (simp add: flat_engine_def)
  have d: "\<not> minus0_is_0d flat_engine" by (simp add: flat_engine_def minus0_is_0d_def)
  from projection_zero_norm [OF i z d, of "[1, 1, 1]" "1 / 10 ^ 6"]
       projection_zero_norm [OF i z d, of "[1, 1]" "1 / 10 ^ 6"] i z d
  show ?thesis by (simp add: flat_engine_def)
qed

text \<open>
  Claim C6 as it is stated fails there: for the example \<open>[1, 1]\<close>, aligned to
  \<open>[1, 1, 1]\<close>, the projection divides by zero and raises nothing.
\<close>

theorem unguarded_division_counterexample:
  "list_all (\<lambda>b. b = 0) (beta_hat_minus0 flat_engine) \<and>
   compute_orthogonal_projection flat_engine (add_constant_x flat_engine [1, 1]) (1 / 10 ^ 6) = NonFinite \<and>
   \<not> raises (compute_orthogonal_projection flat_engine (add_constant_x flat_engine [1, 1]) (1 / 10 ^ 6))"
  by (simp add: flat_engine_def add_constant_x_def compute_orthogonal_projection_def np_dot_def
      sum_sq_def raises_def minus0_is_0d_def)

section \<open>The solver\<close>

lemma quadratic_coeffs_shapes:
  assumes "quadratic_coeffs beta cov q x delta = Return t"
  shows "is_shape (length beta) (length beta) cov \<and> length x = length beta \<and> length delta = length beta"
proof -
  let ?n = "length beta"
  let ?A = "mat_sub (outer beta beta) (mat_scale (2 * q\<^sup>2) cov)"
  from assms have sh: "is_shape ?n ?n (mat_scale (2 * q\<^sup>2) cov)"
    by (auto simp: quadratic_coeffs_def bind_run_Return_iff np_mat_sub_def same_shape_outer split: if_splits)
  then have cov: "is_shape ?n ?n cov" by (simp add: is_shape_mat_scale)
  have A: "is_shape ?n ?n ?A" using is_shape_outer [of beta beta] sh by (rule is_shape_mat_sub)
  from assms sh obtain v where "quad x ?A delta = Return v"
    by (auto simp: quadratic_coeffs_def bind_run_Return_iff np_mat_sub_def same_shape_outer split: if_splits)
  from quad_Return_shape [OF this A] cov show ?thesis by simp
qed

lemma quadratic_coeffs_value:
  assumes "is_shape n n cov" "length beta = n" "length x = n" "length delta = n"
  shows "quadratic_coeffs beta cov q x delta =
           Return (coeff_a beta cov (2 * q\<^sup>2) delta, coeff_b beta cov (2 * q\<^sup>2) x delta,
                   coeff_a beta cov (2 * q\<^sup>2) x)"
proof -
  let ?A = "mat_sub (outer beta beta) (mat_scale (2 * q\<^sup>2) cov)"
  have sh: "is_shape n n (mat_scale (2 * q\<^sup>2) cov)" using assms(1) by (simp add: is_shape_mat_scale)
  have A: "is_shape n n ?A" using is_shape_outer [of beta beta] sh assms(2) by (auto intro: is_shape_mat_sub)
  have sub: "np_mat_sub (outer beta beta) (mat_scale (2 * q\<^sup>2) cov) = Return ?A"
    using sh assms(2) by (simp add: np_mat_sub_def same_shape_outer)
  have "quadratic_coeffs beta cov q x delta =
          Return (bil delta ?A delta, bil x ?A delta + bil delta ?A x, bil x ?A x)"
    using assms by (simp add: quadratic_coeffs_def sub quad_square [OF A])
  also have "bil delta ?A delta = coeff_a beta cov (2 * q\<^sup>2) delta"
    using assms by (simp add: bil_solver_matrix coeff_a_def power2_eq_square)
  also have "bil x ?A x = coeff_a beta cov (2 * q\<^sup>2) x"
    using assms by (simp add: bil_solver_matrix coeff_a_def power2_eq_square)
  also have "bil x ?A delta + bil delta ?A x = coeff_b beta cov (2 * q\<^sup>2) x delta"
    using assms by (simp add: bil_solver_matrix coeff_b_def algebra_simps)
  finally show ?thesis .
qed

lemma repeated_root_math:
  fixes a b c p r k Sxx T Sdd lam :: real
  assumes a: "a = r\<^sup>2 - k * Sdd" and b: "b = 2 * p * r - k * T" and c: "c = p\<^sup>2 - k * Sxx"
    and k: "0 \<le> k" and Q: "0 \<le> p\<^sup>2 * Sdd - p * r * T + r\<^sup>2 * Sxx"
    and apos: "0 < a" and D: "b\<^sup>2 - 4 * a * c \<le> 0"
    and S: "0 \<le> Sxx + lam * T + lam\<^sup>2 * Sdd" and lam: "lam = - b / (2 * a)"
  shows "p + lam * r = 0 \<and> k * (Sxx + lam * T + lam\<^sup>2 * Sdd) = 0"
proof -
  define E where "E = a * p\<^sup>2 - b * p * r + c * r\<^sup>2"
  have "E = - (k * (p\<^sup>2 * Sdd - p * r * T + r\<^sup>2 * Sxx))"
    unfolding E_def a b c by (simp add: power2_eq_square algebra_simps)
  moreover have "0 \<le> k * (p\<^sup>2 * Sdd - p * r * T + r\<^sup>2 * Sxx)" using k Q by simp
  ultimately have E_le: "E \<le> 0" by simp
  have aE: "a * E = (a * p - b * r / 2)\<^sup>2 + (- (b\<^sup>2 - 4 * a * c) / 4) * r\<^sup>2"
    unfolding E_def by (simp add: power2_eq_square field_simps)
  have t1: "0 \<le> (a * p - b * r / 2)\<^sup>2" by simp
  have t2: "0 \<le> (- (b\<^sup>2 - 4 * a * c) / 4) * r\<^sup>2" using D by (intro mult_nonneg_nonneg) simp_all
  have "a * E \<le> 0" using apos E_le by (simp add: mult_le_0_iff)
  then have "(a * p - b * r / 2)\<^sup>2 + (- (b\<^sup>2 - 4 * a * c) / 4) * r\<^sup>2 = 0"
    using t1 t2 aE by linarith
  then have "(a * p - b * r / 2)\<^sup>2 = 0" using t1 t2 by linarith
  then have ap: "a * p = b * r / 2" by simp
  have "p + lam * r = (2 * (a * p) - b * r) / (2 * a)"
    using apos unfolding lam by (simp add: field_simps)
  then have m: "p + lam * r = 0" using ap by simp
  have "(p + lam * r)\<^sup>2 - k * (Sxx + lam * T + lam\<^sup>2 * Sdd) = c + b * lam + a * lam\<^sup>2"
    unfolding a b c by (simp add: power2_eq_square algebra_simps)
  also have "\<dots> = - (b\<^sup>2 - 4 * a * c) / (4 * a)"
    using apos unfolding lam by (simp add: power2_eq_square field_simps)
  also have "\<dots> \<ge> 0" using D apos by (intro divide_nonneg_pos) simp_all
  finally have "k * (Sxx + lam * T + lam\<^sup>2 * Sdd) \<le> 0" using m by simp
  moreover have "0 \<le> k * (Sxx + lam * T + lam\<^sup>2 * Sdd)" using k S by simp
  ultimately show ?thesis using m by simp
qed

lemma try_roots_Some:
  "try_roots eq_at tol ls = Return (Some l) \<Longrightarrow> \<exists>eq. eq_at l = Return eq \<and> eq < tol"
  by (induction ls) (auto simp: bind_run_Return_iff split: if_splits)

lemma solve_lambda_unfold:
  assumes "y = 0 \<or> y = 1" "cov_params st = Some cov"
    "- 1 < 2 * flipped y level - 1" "2 * flipped y level - 1 < 1"
    "quadratic_coeffs (beta_hat st) cov (erfinv (2 * flipped y level - 1)) x delta = Return (a, b, c)"
  shows "solve_lambda erfinv st level x y delta tol tol_underflow =
     (if a < tol_underflow then Raise (ArithmeticError ''Risk of underflow'')
      else if \<bar>b\<^sup>2 - 4 * a * c\<bar> < tol \<and> b\<^sup>2 - 4 * a * c \<le> 0 then
        (if a = 0 then NonFinite else Return (Some (- b / (2 * a))))
      else if b\<^sup>2 - 4 * a * c < 0 then Return None
      else if b\<^sup>2 - 4 * a * c > 0 then
        (if a = 0 then NonFinite
         else try_roots
               (\<lambda>lambda_star.
                  bind_run (np_add x (smult lambda_star delta))
                    (residual (erfinv (2 * flipped y level - 1)) (beta_hat st) cov))
               tol
               [(- b - sqrt (b\<^sup>2 - 4 * a * c)) / (2 * a), (- b + sqrt (b\<^sup>2 - 4 * a * c)) / (2 * a)])
      else Raise (ValueError ''Error when solving the 2nd degree equation.''))"
  using assms by (auto simp add: solve_lambda_def py_assert_def sp_erfinv_def flipped_def Let_def)

lemma solve_lambda_Return_coeffs:
  assumes "solve_lambda erfinv st level x y delta tol tol_underflow = Return res"
  shows "\<exists>cov a b c. (y = 0 \<or> y = 1) \<and> cov_params st = Some cov \<and>
           - 1 < 2 * flipped y level - 1 \<and> 2 * flipped y level - 1 < 1 \<and>
           quadratic_coeffs (beta_hat st) cov (erfinv (2 * flipped y level - 1)) x delta = Return (a, b, c)"
  using assms
  by (auto simp add: solve_lambda_def py_assert_def sp_erfinv_def flipped_def Let_def bind_run_Return_iff
      split: if_splits option.splits)

subsection \<open>The solver on the example inputs\<close>

lemma erfinv_ex_level: "erfinv_ex (2 * flipped 1 (8413 / 10000) - 1) = sqrt 2 / 2"
  by (simp add: erfinv_ex_def flipped_def)

lemma two_q_sq: "2 * (sqrt 2 / 2)\<^sup>2 = (1::real)"
  by (simp add: power_divide)

lemma sqrt_16_25: "sqrt (16 / 25) = 4 / 5"
  by (rule real_sqrt_unique) (simp_all add: power2_eq_square)

lemma sqrt_1_9: "sqrt (1 / 9) = 1 / 3"
  by (rule real_sqrt_unique) (simp_all add: power2_eq_square)

lemma coeffs_plain:
  "quadratic_coeffs (beta_hat (plain_engine [[s1, s2], [s3, s4]])) [[s1, s2], [s3, s4]] (sqrt 2 / 2) [x1, x2] [d1, d2]
   = Return (coeff_a [1, 0] [[s1, s2], [s3, s4]] 1 [d1, d2],
             coeff_b [1, 0] [[s1, s2], [s3, s4]] 1 [x1, x2] [d1, d2],
             coeff_a [1, 0] [[s1, s2], [s3, s4]] 1 [x1, x2])"
  using quadratic_coeffs_value [of 2 "[[s1, s2], [s3, s4]]" "[1, 0]" "[x1, x2]" "[d1, d2]" "sqrt 2 / 2"]
  by (simp add: is_shape_def plain_engine_def two_q_sq)

lemma psd_diag: "0 \<le> s \<Longrightarrow> 0 \<le> t \<Longrightarrow> psd [[s, 0], [0, t]]"
proof -
  assume s: "0 \<le> s" and t: "0 \<le> t"
  have "0 \<le> bil v [[s, 0], [0, t]] v" if "length v = 2" for v
  proof -
    from that obtain v1 v2 where "v = [v1, v2]"
      by (cases v; cases "tl v") auto
    moreover have "0 \<le> s * (v1 * v1) + t * (v2 * v2)"
      using s t by (simp add: zero_le_mult_iff)
    ultimately show ?thesis by (simp add: bil_2 algebra_simps)
  qed
  then show ?thesis by (simp add: psd_def)
qed

lemma plain_cov: "cov_params (plain_engine C) = Some C"
  by (simp add: plain_engine_def)

lemma solve_plain:
  "solve_lambda erfinv_ex (plain_engine [[s1, s2], [s3, s4]]) (8413 / 10000) [x1, x2] 1 [d1, d2] tol tu =
    (let a = coeff_a [1, 0] [[s1, s2], [s3, s4]] 1 [d1, d2];
         b = coeff_b [1, 0] [[s1, s2], [s3, s4]] 1 [x1, x2] [d1, d2];
         c = coeff_a [1, 0] [[s1, s2], [s3, s4]] 1 [x1, x2] in
     if a < tu then Raise (ArithmeticError ''Risk of underflow'')
      else if \<bar>b\<^sup>2 - 4 * a * c\<bar> < tol \<and> b\<^sup>2 - 4 * a * c \<le> 0 then
        (if a = 0 then NonFinite else Return (Some (- b / (2 * a))))
      else if b\<^sup>2 - 4 * a * c < 0 then Return None
      else if b\<^sup>2 - 4 * a * c > 0 then
        (if a = 0 then NonFinite
         else try_roots
               (\<lambda>lambda_star.
                  bind_run (np_add [x1, x2] (smult lambda_star [d1, d2]))
                    (residual (sqrt 2 / 2) [1, 0] [[s1, s2], [s3, s4]]))
               tol
               [(- b - sqrt (b\<^sup>2 - 4 * a * c)) / (2 * a), (- b + sqrt (b\<^sup>2 - 4 * a * c)) / (2 * a)])
      else Raise (ValueError ''Error when solving the 2nd degree equation.''))"
proof -
  have c: "cov_params (plain_engine [[s1, s2], [s3, s4]]) = Some [[s1, s2], [s3, s4]]"
    and b: "beta_hat (plain_engine [[s1, s2], [s3, s4]]) = [1, 0]"
    by (simp_all add: plain_engine_def)
  have r: "- 1 < 2 * flipped 1 (8413 / 10000) - (1::real)" "2 * flipped 1 (8413 / 10000) - 1 < (1::real)"
    by (simp_all add: flipped_def)
  have y: "(1::int) = 0 \<or> (1::int) = 1" by simp
  from coeffs_plain [of s1 s2 s3 s4 x1 x2 d1 d2]
  have qc: "quadratic_coeffs (beta_hat (plain_engine [[s1, s2], [s3, s4]])) [[s1, s2], [s3, s4]]
      (erfinv_ex (2 * flipped 1 (8413 / 10000) - 1)) [x1, x2] [d1, d2]
   = Return (coeff_a [1, 0] [[s1, s2], [s3, s4]] 1 [d1, d2],
             coeff_b [1, 0] [[s1, s2], [s3, s4]] 1 [x1, x2] [d1, d2],
             coeff_a [1, 0] [[s1, s2], [s3, s4]] 1 [x1, x2])"
    by (simp only: erfinv_ex_level)
  show ?thesis
    unfolding solve_lambda_unfold [where erfinv = erfinv_ex and tol = tol and tol_underflow = tu, OF y c r qc]
    by (simp only: Let_def erfinv_ex_level b)
qed

lemma residual_plain:
  "residual (sqrt 2 / 2) [1, 0] [[s1, s2], [s3, s4]] [z1, z2] =
     (let s = (z1 * s1 + z2 * s3) * z1 + (z1 * s2 + z2 * s4) * z2 in
      if s < 0 then Raise (ValueError ''math domain error'') else Return \<bar>z1 + sqrt s\<bar>)"
  by (simp add: residual_def np_dot_def quad_2 Let_def)

lemma solve_ex_underflow: "solve_lambda erfinv_ex (plain_engine [[2, 0], [0, 2]]) (8413 / 10000) [1, 0] 1 [0, 1] (1 / 10 ^ 6) (1 / 10 ^ 7)
   = Raise (ArithmeticError ''Risk of underflow'')"
  by (simp add: solve_plain coeff_a_def coeff_b_def bil_2 Let_def)

lemma solve_ex_none: "solve_lambda erfinv_ex (plain_engine [[2, 0], [0, 2]]) (8413 / 10000) [1, 0] 1 [0, 1] (1 / 10 ^ 6) (- 10)
   = Return None"
  by (simp add: solve_plain coeff_a_def coeff_b_def bil_2 Let_def)

lemma solve_ex_two_roots: "solve_lambda erfinv_ex (plain_engine [[1 / 5, 0], [0, 1 / 5]]) (8413 / 10000) [1, 0] 1 [1, 1] (1 / 10 ^ 6) (1 / 10 ^ 7)
   = Return (Some (- 2))"
  by (simp add: solve_plain coeff_a_def coeff_b_def bil_2 Let_def power2_eq_square sqrt_16_25
      np_add_def vadd_def smult_def residual_plain)

lemma solve_ex_no_root: "solve_lambda erfinv_ex (plain_engine [[1 / 5, 0], [0, 1 / 5]]) (8413 / 10000) [1, 0] 1 [1, 1] 0 (1 / 10 ^ 7)
   = Raise (ValueError ''Error when solving the 2nd degree equation.'')"
  by (simp add: solve_plain coeff_a_def coeff_b_def bil_2 Let_def power2_eq_square sqrt_16_25
      np_add_def vadd_def smult_def residual_plain sqrt_1_9)

lemma solve_ex_repeated_psd: "solve_lambda erfinv_ex (plain_engine [[2, 0], [0, 2]]) (8413 / 10000) [1, 0] 1 [0, 1 / 10000] (1 / 10 ^ 6) (- 1)
   = Return (Some 0)"
  by (simp add: solve_plain coeff_a_def coeff_b_def bil_2 Let_def power2_eq_square)

lemma solve_ex_repeated_indefinite: "solve_lambda erfinv_ex (plain_engine [[0, 0], [0, - 1]]) (8413 / 10000) [1, 0] 1 [0, 4 / 10000] (1 / 10 ^ 6) (1 / 10 ^ 7)
   = Return (Some 0)"
  by (simp add: solve_plain coeff_a_def coeff_b_def bil_2 Let_def power2_eq_square)

lemma residual_ex_repeated_psd: "residual_at erfinv_ex (plain_engine [[2, 0], [0, 2]]) [[2, 0], [0, 2]] (8413 / 10000) [1, 0] 1 [0, 1 / 10000] 0
   = Return (1 + sqrt 2)"
  by (simp add: residual_at_def erfinv_ex_level plain_engine_def np_add_def vadd_def smult_def residual_plain)

lemma residual_ex_repeated_indefinite: "residual_at erfinv_ex (plain_engine [[0, 0], [0, - 1]]) [[0, 0], [0, - 1]] (8413 / 10000) [1, 0] 1 [0, 4 / 10000] 0
   = Return 1"
  by (simp add: residual_at_def erfinv_ex_level plain_engine_def np_add_def vadd_def smult_def residual_plain)

lemma coeffs_ex_a:
  "quadratic_coeffs (beta_hat (plain_engine [[2, 0], [0, 2]])) [[2, 0], [0, 2]]
      (erfinv_ex (2 * flipped 1 (8413 / 10000) - 1)) [1, 0] [0, 1] = Return (- 2, 0, - 1)"
  by (simp only: erfinv_ex_level coeffs_plain) (simp add: coeff_a_def coeff_b_def bil_2)

lemma coeffs_ex_b:
  "quadratic_coeffs (beta_hat (plain_engine [[2, 0], [0, 2]])) [[2, 0], [0, 2]]
      (erfinv_ex (2 * flipped 1 (8413 / 10000) - 1)) [1, 1] [0, 1] = Return (- 2, - 4, - 3)"
  by (simp only: erfinv_ex_level coeffs_plain) (simp add: coeff_a_def coeff_b_def bil_2)

lemma coeffs_ex_c:
  "quadratic_coeffs (beta_hat (plain_engine [[1 / 5, 0], [0, 1 / 5]])) [[1 / 5, 0], [0, 1 / 5]]
      (erfinv_ex (2 * flipped 1 (8413 / 10000) - 1)) [1, 0] [1, 1] = Return (3 / 5, 8 / 5, 4 / 5)"
  by (simp only: erfinv_ex_level coeffs_plain) (simp add: coeff_a_def coeff_b_def bil_2)

lemma residual_ex_c1:
  "residual_at erfinv_ex (plain_engine [[1 / 5, 0], [0, 1 / 5]]) [[1 / 5, 0], [0, 1 / 5]] (8413 / 10000)
      [1, 0] 1 [1, 1] (- 2) = Return 0"
  by (simp add: residual_at_def erfinv_ex_level plain_engine_def np_add_def vadd_def smult_def residual_plain)

lemma residual_ex_c2:
  "residual_at erfinv_ex (plain_engine [[1 / 5, 0], [0, 1 / 5]]) [[1 / 5, 0], [0, 1 / 5]] (8413 / 10000)
      [1, 0] 1 [1, 1] (- (2 / 3)) = Return (2 / 3)"
  by (simp add: residual_at_def erfinv_ex_level plain_engine_def np_add_def vadd_def smult_def residual_plain
      sqrt_1_9)

lemma erfinv_ex_half: "erfinv_ex (2 * flipped 1 (1 / 2) - 1) = 0"
  by (simp add: erfinv_ex_def flipped_def)

lemma coeffs_ex_half:
  "quadratic_coeffs (beta_hat (plain_engine [[1 / 5, 0], [0, 1 / 5]])) [[1 / 5, 0], [0, 1 / 5]]
      (erfinv_ex (2 * flipped 1 (1 / 2) - 1)) [1, 0] [1, 1] = Return (1, 2, 1)"
  using quadratic_coeffs_value [of 2 "[[1 / 5, 0], [0, 1 / 5]]" "[1, 0]" "[1, 0]" "[1, 1]" 0]
  by (simp add: erfinv_ex_half is_shape_def plain_engine_def coeff_a_def coeff_b_def bil_2)

lemma solve_ex_half:
  "solve_lambda erfinv_ex (plain_engine [[1 / 5, 0], [0, 1 / 5]]) (1 / 2) [1, 0] 1 [1, 1]
       (1 / 10 ^ 6) (1 / 10 ^ 7) = Return (Some (- 1))"
proof -
  have r: "- 1 < 2 * flipped 1 (1 / 2) - (1::real)" "2 * flipped 1 (1 / 2) - 1 < (1::real)"
    by (simp_all add: flipped_def)
  have y: "(1::int) = 0 \<or> (1::int) = 1" by simp
  show ?thesis
    unfolding solve_lambda_unfold [where erfinv = erfinv_ex and tol = "1 / 10 ^ 6" and tol_underflow = "1 / 10 ^ 7",
        OF y plain_cov r coeffs_ex_half]
    by simp
qed

subsection \<open>Exact arithmetic is rounded arithmetic without rounding\<close>

lemma foldl_dot: "foldl (\<lambda>acc (a, b). acc + a * b) s (zip x y) = s + dot x y"
proof (induction x arbitrary: y s)
  case Nil
  then show ?case by simp
next
  case (Cons a x)
  then show ?case by (cases y) (simp_all add: algebra_simps)
qed

lemma dot_fp_exact: "dot_fp (\<lambda>v. v) x y = dot x y"
  using foldl_dot [of 0 x y] by (simp add: dot_fp_def)

lemma np_dot_fp_exact: "np_dot_fp (\<lambda>v. v) x y = np_dot x y"
  by (simp add: np_dot_fp_def np_dot_def dot_fp_exact)

lemma vec_mat_nth:
  "is_shape (length x) c A \<Longrightarrow> j < c \<Longrightarrow> vec_mat c x A ! j = dot x (column A j)"
proof (induction c x A rule: vec_mat.induct)
  case (1 c xi x row A)
  then have sh: "is_shape (length x) c A" and lr: "length row = c" by (simp_all add: is_shape_def)
  have "length (vec_mat c x A) = c" using sh by (simp add: is_shape_def)
  then show ?case using 1 sh lr by (simp add: nth_vadd nth_smult column_def)
qed (simp_all add: column_def is_shape_def)

lemma vec_mat_fp_exact:
  assumes "is_shape (length x) c A"
  shows "vec_mat_fp (\<lambda>v. v) c x A = vec_mat c x A"
proof (rule nth_equalityI)
  show "length (vec_mat_fp (\<lambda>v. v) c x A) = length (vec_mat c x A)"
    using assms by (simp add: vec_mat_fp_def is_shape_def)
next
  fix j assume "j < length (vec_mat_fp (\<lambda>v. v) c x A)"
  then have "j < c" by (simp add: vec_mat_fp_def)
  then show "vec_mat_fp (\<lambda>v. v) c x A ! j = vec_mat c x A ! j"
    using vec_mat_nth [OF assms] by (simp add: vec_mat_fp_def dot_fp_exact)
qed

lemma foldl_sum_sq: "foldl (\<lambda>acc b. acc + b * b) s v = s + sum_sq v"
  by (induction v arbitrary: s) (simp_all add: sum_sq_def algebra_simps)

lemma sum_sq_fp_exact: "sum_sq_fp (\<lambda>v. v) v = sum_sq v"
  using foldl_sum_sq [of 0 v] by (simp add: sum_sq_fp_def)

lemma quad_fp_exact: "quad_fp (\<lambda>v. v) x A y = quad x A y"
  by (simp add: quad_fp_def quad_def np_vec_mat_fp_def np_vec_mat_def vec_mat_fp_exact np_dot_fp_exact)

lemma smult_fp_exact: "smult_fp (\<lambda>v. v) k = smult k"
  by (rule ext) (simp add: smult_fp_def smult_def)

lemma compute_orthogonal_projection_fp_exact:
  "compute_orthogonal_projection_fp (\<lambda>v. v) st x overshoot = compute_orthogonal_projection st x overshoot"
  by (simp add: compute_orthogonal_projection_fp_def compute_orthogonal_projection_def np_dot_fp_exact
      sum_sq_fp_exact smult_fp_exact cong: if_cong)

lemma np_add_fp_exact: "np_add_fp (\<lambda>v. v) x y = np_add x y"
  by (simp add: np_add_fp_def np_add_def vadd_def)

lemma residual_fp_exact: "residual_fp (\<lambda>v. v) q beta cov = residual q beta cov"
  by (rule ext) (simp add: residual_fp_def residual_def np_dot_fp_exact quad_fp_exact)

lemma quadratic_coeffs_fp_exact:
  "quadratic_coeffs_fp (\<lambda>v. v) beta cov q x delta = quadratic_coeffs beta cov q x delta"
  by (simp add: quadratic_coeffs_fp_def quadratic_coeffs_def np_mat_sub_fp_def np_mat_sub_def mat_sub_def
      outer_fp_def outer_def mat_scale_fp_def mat_scale_def smult_fp_exact quad_fp_exact power2_eq_square)

lemma solve_lambda_fp_exact:
  "solve_lambda_fp (\<lambda>v. v) erfinv st level x y delta tol tol_underflow
     = solve_lambda erfinv st level x y delta tol tol_underflow"
  by (simp add: solve_lambda_fp_def solve_lambda_def quadratic_coeffs_fp_exact np_add_fp_exact
      smult_fp_exact residual_fp_exact power2_eq_square cong: if_cong option.case_cong)

lemma residual_at_fp_exact:
  "residual_at_fp (\<lambda>v. v) erfinv st cov level x y delta lam
     = residual_at erfinv st cov level x y delta lam"
  by (simp add: residual_at_fp_def residual_at_def np_add_fp_exact smult_fp_exact residual_fp_exact
      erfinv_at_def flipped_fp_def flipped_def)

subsection \<open>Doubles\<close>

text \<open>
  A number between \<open>2 ^ e\<close> and \<open>2 ^ (e + 1)\<close> is rounded at the exponent \<open>e\<close>.
\<close>

lemma floor_log2_eq:
  assumes "2 powi e \<le> \<bar>v\<bar>" and "\<bar>v\<bar> < 2 powi (e + 1)"
  shows "\<lfloor>log 2 \<bar>v\<bar>\<rfloor> = e"
proof -
  have "(0::real) < 2 powi e" by simp
  then have pos: "0 < \<bar>v\<bar>" using assms(1) by linarith
  have "(2::real) powr (of_int e) \<le> \<bar>v\<bar>" using assms(1) by (simp add: powr_real_of_int')
  then have l: "of_int e \<le> log 2 \<bar>v\<bar>" using pos by (simp add: le_log_iff)
  have "(2::real) powr (of_int (e + 1)) = 2 powi (e + 1)"
    using powr_real_of_int' [of "2::real" "e + 1"] by auto
  then have "\<bar>v\<bar> < (2::real) powr (of_int (e + 1))" using assms(2) by simp
  then have u: "log 2 \<bar>v\<bar> < of_int (e + 1)" using pos by (simp only: log_less_iff)
  show ?thesis using l u by (simp add: floor_eq_iff)
qed

lemma double_eval:
  assumes "2 powi e \<le> \<bar>v\<bar>" and "\<bar>v\<bar> < 2 powi (e + 1)"
  shows "double v = double_at e v"
proof -
  have "(0::real) < 2 powi e" by simp
  then have "0 < \<bar>v\<bar>" using assms(1) by linarith
  then have "v \<noteq> 0" by simp
  then show ?thesis using floor_log2_eq [OF assms] by (simp add: double_def)
qed

lemma double_zero [simp]: "double 0 = 0"
  by (simp add: double_def)

text \<open>
  The roundings that the examples meet, each evaluated at its exponent.
\<close>

lemma dbl_0: "double (1 / 1000000) = 4722366482869645 / 4722366482869645213696"
  by (subst double_eval [of "- 20"]) (simp_all add: double_at_def rne_def Let_def)

lemma dbl_1: "double (1 / 10000000) = 944473296573929 / 9444732965739290427392"
  by (subst double_eval [of "- 24"]) (simp_all add: double_at_def rne_def Let_def)

lemma dbl_2: "double (17179869184) = 17179869184"
  by (subst double_eval [of "34"]) (simp_all add: double_at_def rne_def Let_def)

lemma dbl_3: "double (1) = 1"
  by (subst double_eval [of "0"]) (simp_all add: double_at_def rne_def Let_def)

lemma dbl_4: "double (- 17179869184) = - 17179869184"
  by (subst double_eval [of "34"]) (simp_all add: double_at_def rne_def Let_def)

lemma dbl_5: "double (4722371205236128083341 / 4722366482869645213696) = 4503604130970123 / 4503599627370496"
  by (subst double_eval [of "0"]) (simp_all add: double_at_def rne_def Let_def)

lemma dbl_6: "double (- (4503604130970123 / 262144)) = - (4503604130970123 / 262144)"
  by (subst double_eval [of "34"]) (simp_all add: double_at_def rne_def Let_def)

lemma dbl_7: "double (20282450168491156799757118635129 / 68719476736) = 295148495475458310144"
  by (subst double_eval [of "68"]) (simp_all add: double_at_def rne_def Let_def)

lemma dbl_8: "double (295148495475458310144) = 295148495475458310144"
  by (subst double_eval [of "68"]) (simp_all add: double_at_def rne_def Let_def)

lemma dbl_9: "double (- 295148200327257980928) = - 295148200327257980928"
  by (subst double_eval [of "68"]) (simp_all add: double_at_def rne_def Let_def)

lemma dbl_10: "double (- 590296400654515961856) = - 590296400654515961856"
  by (subst double_eval [of "69"]) (simp_all add: double_at_def rne_def Let_def)

lemma dbl_11: "double (295147905179352825856) = 295147905179352825856"
  by (subst double_eval [of "68"]) (simp_all add: double_at_def rne_def Let_def)

lemma dbl_12: "double (348449840625676832480659381124284846964736) = 348449840625676863458048506164179481133056"
  by (subst double_eval [of "138"]) (simp_all add: double_at_def rne_def Let_def)

lemma dbl_13: "double (1180593981901833240576) = 1180593981901833240576"
  by (subst double_eval [of "70"]) (simp_all add: double_at_def rne_def Let_def)

lemma dbl_14: "double (348449840625676863458048506164179481133056) = 348449840625676863458048506164179481133056"
  by (subst double_eval [of "138"]) (simp_all add: double_at_def rne_def Let_def)

lemma dbl_15: "double (590296990950916620288) = 590296990950916620288"
  by (subst double_eval [of "69"]) (simp_all add: double_at_def rne_def Let_def)

lemma dbl_16: "double (1501201376990041 / 1501202878191418) = 1125898780943843 / 1125899906842624"
  by (subst double_eval [of "- 1"]) (simp_all add: double_at_def rne_def Let_def)

lemma dbl_17: "double (- (5070602400912916935937173802689 / 295147905179352825856)) = - (9007199254740991 / 524288)"
  by (subst double_eval [of "33"]) (simp_all add: double_at_def rne_def Let_def)

lemma dbl_18: "double (1 / 524288) = 1 / 524288"
  by (subst double_eval [of "- 19"]) (simp_all add: double_at_def rne_def Let_def)

lemma dbl_19: "double (1 / 2097152) = 1 / 2097152"
  by (subst double_eval [of "- 21"]) (simp_all add: double_at_def rne_def Let_def)

lemma dbl_20: "double (1 / 1099511627776) = 1 / 1099511627776"
  by (subst double_eval [of "- 40"]) (simp_all add: double_at_def rne_def Let_def)

lemma dbl_21: "double (3 / 50) = 1080863910568919 / 18014398509481984"
  by (subst double_eval [of "- 5"]) (simp_all add: double_at_def rne_def Let_def)

lemma dbl_22: "double (16933534598913065 / 18014398509481984) = 2116691824864133 / 2251799813685248"
  by (subst double_eval [of "- 1"]) (simp_all add: double_at_def rne_def Let_def)

lemma dbl_23: "double (135107988821115 / 2251799813685248) = 135107988821115 / 2251799813685248"
  by (subst double_eval [of "- 5"]) (simp_all add: double_at_def rne_def Let_def)

lemmas dbl = dbl_0 dbl_1 dbl_2 dbl_3 dbl_4 dbl_5 dbl_6 dbl_7 dbl_8 dbl_9 dbl_10 dbl_11 dbl_12 dbl_13 dbl_14 dbl_15 dbl_16 dbl_17 dbl_18 dbl_19 dbl_20 dbl_21 dbl_22 dbl_23

text \<open>
  The example in doubles. The model has the coefficients \<open>[1, 0]\<close> and no intercept, the
  covariance is a quarter of the identity, the example is \<open>x = [2 ^ 34, 0]\<close> with the label
  1. The projection with the default overshoot, the double of \<open>1e-6\<close>, is
  \<open>delta = [-4503604130970123 / 2 ^ 18, 0]\<close>, about \<open>-17179886363.87\<close>. The one value of
  \<open>erfinv\<close> that the example asks for is the value at 0, which is 0 for the true function
  as for \<open>erfinv_ex\<close>.
\<close>

lemma ex_projection_double:
  "compute_orthogonal_projection_fp double (plain_engine [[1 / 4, 0], [0, 1 / 4]]) [2 ^ 34, 0] (double (1 / 10 ^ 6))
     = Return [- (4503604130970123 / 262144), 0]"
  by (simp add: compute_orthogonal_projection_fp_def plain_engine_def minus0_is_0d_def np_dot_fp_def dot_fp_def
      sum_sq_fp_def smult_fp_def Let_def dbl)

text \<open>
  At the level 1/2 \<open>erfinv\<close> is 0. The solver finds \<open>a\<close>, the rounded square of the first
  entry of \<open>delta\<close>, \<open>b = 2 ^ 35\<close> times that entry and \<open>c = 2 ^ 68\<close>; the rounded
  \<open>b * b\<close> and \<open>(4 * a) * c\<close> are the same double, so the discriminant is 0 and the
  solver returns the rounded \<open>-b/(2a)\<close>. At that root the first coordinate of
  \<open>x + lambda * delta\<close> is \<open>2 ^ (-19)\<close>, and so is the residual.
\<close>

lemma coeffs_ex_double:
  "quadratic_coeffs_fp double (beta_hat (plain_engine [[1 / 4, 0], [0, 1 / 4]])) [[1 / 4, 0], [0, 1 / 4]]
       (erfinv_at double erfinv_ex 1 (1 / 2)) [2 ^ 34, 0] [- (4503604130970123 / 262144), 0]
     = Return (295148495475458310144, - 590296400654515961856, 295147905179352825856)"
  by (simp add: erfinv_at_def flipped_fp_def plain_engine_def erfinv_ex_def
      quadratic_coeffs_fp_def np_mat_sub_fp_def outer_fp_def mat_scale_fp_def smult_fp_def same_shape_def
      is_shape_def ncols_def quad_fp_def np_vec_mat_fp_def vec_mat_fp_def column_def dot_fp_def np_dot_fp_def
      Let_def dbl)

lemma discriminant_ex_double:
  "discriminant_fp double 295148495475458310144 (- 590296400654515961856) 295147905179352825856 = 0"
  by (simp add: discriminant_fp_def dbl)

lemma solve_ex_double:
  "solve_lambda_fp double erfinv_ex (plain_engine [[1 / 4, 0], [0, 1 / 4]]) (1 / 2) [2 ^ 34, 0] 1
       [- (4503604130970123 / 262144), 0] (double (1 / 10 ^ 6)) (double (1 / 10 ^ 7))
     = Return (Some (1125898780943843 / 1125899906842624))"
  by (simp add: solve_lambda_fp_def py_assert_def plain_engine_def sp_erfinv_def erfinv_ex_def
      quadratic_coeffs_fp_def np_mat_sub_fp_def outer_fp_def mat_scale_fp_def smult_fp_def same_shape_def
      is_shape_def ncols_def quad_fp_def np_vec_mat_fp_def vec_mat_fp_def column_def dot_fp_def np_dot_fp_def
      Let_def dbl)

lemma residual_ex_double:
  "residual_at_fp double erfinv_ex (plain_engine [[1 / 4, 0], [0, 1 / 4]]) [[1 / 4, 0], [0, 1 / 4]]
       (1 / 2) [2 ^ 34, 0] 1 [- (4503604130970123 / 262144), 0] (1125898780943843 / 1125899906842624)
     = Return (1 / 524288)"
  by (simp add: residual_at_fp_def residual_fp_def erfinv_at_def flipped_fp_def erfinv_ex_def np_add_fp_def
      plain_engine_def smult_fp_def is_shape_def ncols_def quad_fp_def np_vec_mat_fp_def vec_mat_fp_def
      column_def dot_fp_def np_dot_fp_def Let_def dbl)

text \<open>
  The solver reads the label twice, in its assertion and to flip the level. So the call
  with the label 1 and a level and the call with the label 0 and a second level have the
  same outcome when the flip of the second level is the first one. In exact arithmetic
  that is so for the levels \<open>alpha\<close> and \<open>1 - alpha\<close>.
\<close>

lemma labels_agree_when_flip_exact:
  assumes "rnd (1 - level0) = level1"
  shows "solve_lambda_fp rnd erfinv st level1 x 1 delta tol tol_underflow =
         solve_lambda_fp rnd erfinv st level0 x 0 delta tol tol_underflow"
  using assms by (simp add: solve_lambda_fp_def)

text \<open>
  In doubles the flip of the level is not its own inverse: for the level 0.06 and the
  label 0, the solver called with the double of \<open>1 - 0.06\<close> works with
  0.06000000000000005, which is another double than 0.06. What the two calls then return
  depends on the doubles that \<^verbatim>\<open>scipy.special.erfinv\<close> gives at two arguments one rounding
  apart.
\<close>

lemma level_flip_double:
  "flipped_fp double 0 (double (1 - double (6 / 100))) = 135107988821115 / 2251799813685248 \<and>
   double (6 / 100) = 1080863910568919 / 18014398509481984 \<and>
   flipped_fp double 0 (double (1 - double (6 / 100))) \<noteq> double (6 / 100)"
  by (simp add: flipped_fp_def dbl)

subsection \<open>The residual of a returned root\<close>

text \<open>
  Claim C1, as amended. Let the solver have computed the coefficients \<open>(a, b, c)\<close> and the
  discriminant \<open>D\<close>, and return a root, in whatever arithmetic, rounded or exact. On the
  path of the two roots the residual of the unsquared equation at the returned root, as
  the code computes it, is below \<open>tol\<close>: the code compares it with \<open>tol\<close> before it
  returns the root. On the path of the repeated root (\<open>|D| < tol\<close> and \<open>D \<le> 0\<close>) what is
  returned is \<open>-b/(2a)\<close>, and no residual is computed. (When \<open>a = 0\<close> that quotient is
  \<^verbatim>\<open>nan\<close> or \<^verbatim>\<open>inf\<close>, the outcome \<open>NonFinite\<close>.)
\<close>

theorem solve_lambda_residual:
  assumes cov: "cov_params st = Some cov"
    and qc: "quadratic_coeffs_fp rnd (beta_hat st) cov (erfinv_at rnd erfinv y level) x delta = Return (a, b, c)"
    and ret: "solve_lambda_fp rnd erfinv st level x y delta tol tol_underflow = Return (Some lam)"
  shows "(if \<bar>discriminant_fp rnd a b c\<bar> < tol \<and> discriminant_fp rnd a b c \<le> 0
          then lam = rnd (- b / rnd (2 * a))
          else \<exists>eq. residual_at_fp rnd erfinv st cov level x y delta lam = Return eq \<and> eq < tol)"
proof (cases "\<bar>discriminant_fp rnd a b c\<bar> < tol \<and> discriminant_fp rnd a b c \<le> 0")
  case True
  with ret cov qc have "lam = rnd (- b / rnd (2 * a))"
    by (auto simp add: solve_lambda_fp_def py_assert_def sp_erfinv_def Let_def erfinv_at_def flipped_fp_def
        discriminant_fp_def split: if_splits)
  then show ?thesis unfolding if_P [OF True] .
next
  case False
  let ?q = "erfinv_at rnd erfinv y level"
  let ?D = "discriminant_fp rnd a b c"
  let ?eq_at = "\<lambda>l. bind_run (np_add_fp rnd x (smult_fp rnd l delta)) (residual_fp rnd ?q (beta_hat st) cov)"
  from ret cov qc False
  have "try_roots ?eq_at tol
          [rnd (rnd (- b - rnd (sqrt ?D)) / rnd (2 * a)), rnd (rnd (- b + rnd (sqrt ?D)) / rnd (2 * a))]
        = Return (Some lam)"
    by (auto simp add: solve_lambda_fp_def py_assert_def sp_erfinv_def Let_def erfinv_at_def flipped_fp_def
        discriminant_fp_def split: if_splits)
  from try_roots_Some [OF this] have "\<exists>eq. residual_at_fp rnd erfinv st cov level x y delta lam = Return eq \<and> eq < tol"
    by (simp add: residual_at_fp_def)
  then show ?thesis unfolding if_not_P [OF False] .
qed


text \<open>
  The theorem on both paths. In exact arithmetic, for the covariance a fifth of the
  identity, \<open>x = [1, 0]\<close>, the direction \<open>[1, 1]\<close> and the level 0.8413: the roots are -2
  and -2/3, and the first one is returned. In doubles, for the example above: the root
  returned on the path of the repeated root is the rounded \<open>-b/(2a)\<close>.
\<close>

theorem solve_lambda_residual_witness:
  "quadratic_coeffs_fp (\<lambda>v. v) (beta_hat (plain_engine [[1 / 5, 0], [0, 1 / 5]])) [[1 / 5, 0], [0, 1 / 5]]
       (erfinv_at (\<lambda>v. v) erfinv_ex 1 (8413 / 10000)) [1, 0] [1, 1] = Return (3 / 5, 8 / 5, 4 / 5) \<and>
   discriminant_fp (\<lambda>v. v) (3 / 5) (8 / 5) (4 / 5) = 16 / 25 \<and>
   solve_lambda_fp (\<lambda>v. v) erfinv_ex (plain_engine [[1 / 5, 0], [0, 1 / 5]]) (8413 / 10000) [1, 0] 1 [1, 1]
       (1 / 10 ^ 6) (1 / 10 ^ 7) = Return (Some (- 2)) \<and>
   (\<exists>eq. residual_at_fp (\<lambda>v. v) erfinv_ex (plain_engine [[1 / 5, 0], [0, 1 / 5]]) [[1 / 5, 0], [0, 1 / 5]]
            (8413 / 10000) [1, 0] 1 [1, 1] (- 2) = Return eq \<and> eq < 1 / 10 ^ 6) \<and>
   quadratic_coeffs_fp double (beta_hat (plain_engine [[1 / 4, 0], [0, 1 / 4]])) [[1 / 4, 0], [0, 1 / 4]]
       (erfinv_at double erfinv_ex 1 (1 / 2)) [2 ^ 34, 0] [- (4503604130970123 / 262144), 0]
     = Return (295148495475458310144, - 590296400654515961856, 295147905179352825856) \<and>
   discriminant_fp double 295148495475458310144 (- 590296400654515961856) 295147905179352825856 = 0 \<and>
   solve_lambda_fp double erfinv_ex (plain_engine [[1 / 4, 0], [0, 1 / 4]]) (1 / 2) [2 ^ 34, 0] 1
       [- (4503604130970123 / 262144), 0] (double (1 / 10 ^ 6)) (double (1 / 10 ^ 7))
     = Return (Some (1125898780943843 / 1125899906842624)) \<and>
   1125898780943843 / 1125899906842624
     = double (- (- 590296400654515961856) / double (2 * 295148495475458310144))"
proof -
  have r: "solve_lambda_fp (\<lambda>v. v) erfinv_ex (plain_engine [[1 / 5, 0], [0, 1 / 5]]) (8413 / 10000) [1, 0] 1 [1, 1]
       (1 / 10 ^ 6) (1 / 10 ^ 7) = Return (Some (- 2))"
    using solve_ex_two_roots by (simp add: solve_lambda_fp_exact)
  have q: "quadratic_coeffs_fp (\<lambda>v. v) (beta_hat (plain_engine [[1 / 5, 0], [0, 1 / 5]])) [[1 / 5, 0], [0, 1 / 5]]
       (erfinv_at (\<lambda>v. v) erfinv_ex 1 (8413 / 10000)) [1, 0] [1, 1] = Return (3 / 5, 8 / 5, 4 / 5)"
    using coeffs_ex_c by (simp add: quadratic_coeffs_fp_exact erfinv_at_def flipped_fp_def flipped_def)
  have d: "discriminant_fp (\<lambda>v. v) (3 / 5) (8 / 5) (4 / 5) = 16 / 25"
    by (simp add: discriminant_fp_def)
  have t: "(0 :: real) < double (1 / 10 ^ 6)" by (simp add: dbl)
  from solve_lambda_residual [OF plain_cov q r] d
  have one: "\<exists>eq. residual_at_fp (\<lambda>v. v) erfinv_ex (plain_engine [[1 / 5, 0], [0, 1 / 5]]) [[1 / 5, 0], [0, 1 / 5]]
            (8413 / 10000) [1, 0] 1 [1, 1] (- 2) = Return eq \<and> eq < 1 / 10 ^ 6"
    by simp
  from solve_lambda_residual [OF plain_cov coeffs_ex_double solve_ex_double] discriminant_ex_double t
  have two: "1125898780943843 / 1125899906842624
     = double (- (- 590296400654515961856) / double (2 * 295148495475458310144))"
    by simp
  show ?thesis using q d r one coeffs_ex_double discriminant_ex_double solve_ex_double two by simp
qed


text \<open>
  Claim C1 as it is stated, for every return path, fails on the path of the repeated
  root, in doubles, with a positive semi-definite covariance and the default tolerances:
  for the example above, whose direction is the projection that the orchestrator passes,
  the solver returns a root at which the residual is \<open>2 ^ (-19)\<close>, about \<open>1.9e-6\<close>,
  which is not below \<open>tol = 1e-6\<close>.
\<close>

theorem repeated_root_residual_counterexample:
  "psd [[1 / 4, 0], [0, 1 / 4]] \<and>
   compute_orthogonal_projection_fp double (plain_engine [[1 / 4, 0], [0, 1 / 4]]) [2 ^ 34, 0] (double (1 / 10 ^ 6))
     = Return [- (4503604130970123 / 262144), 0] \<and>
   solve_lambda_fp double erfinv_ex (plain_engine [[1 / 4, 0], [0, 1 / 4]]) (1 / 2) [2 ^ 34, 0] 1
       [- (4503604130970123 / 262144), 0] (double (1 / 10 ^ 6)) (double (1 / 10 ^ 7))
     = Return (Some (1125898780943843 / 1125899906842624)) \<and>
   residual_at_fp double erfinv_ex (plain_engine [[1 / 4, 0], [0, 1 / 4]]) [[1 / 4, 0], [0, 1 / 4]]
       (1 / 2) [2 ^ 34, 0] 1 [- (4503604130970123 / 262144), 0] (1125898780943843 / 1125899906842624)
     = Return (1 / 524288) \<and>
   \<not> (1 / 524288 < double (1 / 10 ^ 6))"
proof -
  have p: "psd [[1 / 4, 0], [0, 1 / 4]]" by (rule psd_diag) simp_all
  show ?thesis using p ex_projection_double solve_ex_double residual_ex_double by (simp add: dbl)
qed

text \<open>
  In exact arithmetic the path of the repeated root is harmless for the inputs of the
  specification: with a positive semi-definite covariance and a \<open>tol_underflow\<close> that is
  not negative, a root returned there (so \<open>a\<close> is positive) comes from \<open>D = 0\<close> and has
  the residual 0. The failure above is an effect of the rounding.
\<close>

lemma exact_residual_of_returned_root:
  assumes ret: "solve_lambda erfinv st level x y delta tol tol_underflow = Return (Some lam)"
    and cov: "cov_params st = Some cov"
    and qc: "quadratic_coeffs (beta_hat st) cov (erfinv (2 * flipped y level - 1)) x delta = Return (a, b, c)"
    and path: "(psd cov \<and> 0 \<le> tol_underflow) \<or> \<not> (\<bar>b\<^sup>2 - 4 * a * c\<bar> < tol \<and> b\<^sup>2 - 4 * a * c \<le> 0)"
  shows "\<exists>eq. residual_at erfinv st cov level x y delta lam = Return eq \<and> eq < tol"
proof -
  let ?q = "erfinv (2 * flipped y level - 1)" and ?beta = "beta_hat st"
  let ?n = "length ?beta"
  let ?eq_at = "\<lambda>l. bind_run (np_add x (smult l delta)) (residual ?q ?beta cov)"
  from solve_lambda_Return_coeffs [OF ret] cov have
    y: "y = 0 \<or> y = 1" and r1: "- 1 < 2 * flipped y level - 1" and r2: "2 * flipped y level - 1 < 1"
    by auto
  from quadratic_coeffs_shapes [OF qc] have sh: "is_shape ?n ?n cov"
    and lx: "length x = ?n" and ld: "length delta = ?n" by simp_all
  have lcov: "length cov = ?n" using sh by (simp add: is_shape_def)
  let ?k = "2 * ?q\<^sup>2"
  from qc quadratic_coeffs_value [OF sh refl lx ld, of ?q]
  have a: "a = coeff_a ?beta cov ?k delta" and b: "b = coeff_b ?beta cov ?k x delta"
    and c: "c = coeff_a ?beta cov ?k x" by simp_all
  note unf = solve_lambda_unfold [where erfinv = erfinv and tol = tol and tol_underflow = tol_underflow,
      OF y cov r1 r2 qc]
  have na: "\<not> a < tol_underflow" using ret unf by (auto split: if_splits)
  show ?thesis
  proof (cases "\<bar>b\<^sup>2 - 4 * a * c\<bar> < tol \<and> b\<^sup>2 - 4 * a * c \<le> 0")
    case False
    with ret unf na have "try_roots ?eq_at tol
        [(- b - sqrt (b\<^sup>2 - 4 * a * c)) / (2 * a), (- b + sqrt (b\<^sup>2 - 4 * a * c)) / (2 * a)] = Return (Some lam)"
      by (auto split: if_splits)
    from try_roots_Some [OF this] show ?thesis by (simp add: residual_at_def)
  next
    case True
    with path have psd: "psd cov" and tu: "0 \<le> tol_underflow" by blast+
    from True ret unf na have a0: "a \<noteq> 0" and lam: "lam = - b / (2 * a)" by (auto split: if_splits)
    from na tu a0 have apos: "0 < a" by simp
    from True have D: "b\<^sup>2 - 4 * a * c \<le> 0" by simp
    from True have tolpos: "0 < tol" by linarith
    let ?p = "dot x ?beta" and ?r = "dot delta ?beta"
    let ?Sxx = "bil x cov x" and ?T = "bil x cov delta + bil delta cov x" and ?Sdd = "bil delta cov delta"
    let ?w = "vadd (smult ?p delta) (smult (- ?r) x)"
    let ?xa = "vadd (smult 1 x) (smult lam delta)"
    have "0 \<le> bil ?w cov ?w" using psd lx ld lcov by (simp add: psd_def)
    then have Q: "0 \<le> ?p\<^sup>2 * ?Sdd - ?p * ?r * ?T + ?r\<^sup>2 * ?Sxx"
      using bil_combination [OF sh ld lx, of ?p "- ?r"] by (simp add: algebra_simps)
    have "0 \<le> bil ?xa cov ?xa" using psd lx ld lcov by (simp add: psd_def)
    then have S: "0 \<le> ?Sxx + lam * ?T + lam\<^sup>2 * ?Sdd"
      using bil_combination [OF sh lx ld, of 1 lam] by (simp add: algebra_simps)
    have Sval: "bil (vadd x (smult lam delta)) cov (vadd x (smult lam delta)) = ?Sxx + lam * ?T + lam\<^sup>2 * ?Sdd"
      using bil_combination [OF sh lx ld, of 1 lam] by (simp add: algebra_simps)
    have k: "0 \<le> ?k" by simp
    from repeated_root_math [of a ?r ?k ?Sdd b ?p ?T c ?Sxx lam, OF _ _ _ k Q apos D S lam]
    have m0: "?p + lam * ?r = 0" and kS: "?k * (?Sxx + lam * ?T + lam\<^sup>2 * ?Sdd) = 0"
      using a b c by (simp_all add: coeff_a_def coeff_b_def)
    have mval: "dot (vadd x (smult lam delta)) ?beta = ?p + lam * ?r"
      using lx ld by (simp add: dot_vadd_left dot_smult_left)
    have z: "?q * sqrt (?Sxx + lam * ?T + lam\<^sup>2 * ?Sdd) = 0" using kS by auto
    have "?eq_at lam = Return 0"
      using lx ld sh S z
      by (simp add: np_add_def residual_def np_dot_def quad_square [OF sh] Sval mval m0)
    then show ?thesis using tolpos by (simp add: residual_at_def)
  qed
qed

text \<open>
  With a negative \<open>tol_underflow\<close>, or with a matrix that is not positive semi-definite,
  the path of the repeated root returns a root with a large residual in exact arithmetic
  too: the root 0 with the residual \<open>1 + sqrt 2\<close>, and the root 0 with the residual 1.
\<close>

lemma repeated_root_other_inputs:
  "psd [[2, 0], [0, 2]] \<and>
   solve_lambda erfinv_ex (plain_engine [[2, 0], [0, 2]]) (8413 / 10000) [1, 0] 1 [0, 1 / 10000]
       (1 / 10 ^ 6) (- 1) = Return (Some 0) \<and>
   residual_at erfinv_ex (plain_engine [[2, 0], [0, 2]]) [[2, 0], [0, 2]] (8413 / 10000)
       [1, 0] 1 [0, 1 / 10000] 0 = Return (1 + sqrt 2) \<and>
   \<not> 1 + sqrt 2 < 1 / 10 ^ 6 \<and>
   solve_lambda erfinv_ex (plain_engine [[0, 0], [0, - 1]]) (8413 / 10000) [1, 0] 1 [0, 4 / 10000]
       (1 / 10 ^ 6) (1 / 10 ^ 7) = Return (Some 0) \<and>
   residual_at erfinv_ex (plain_engine [[0, 0], [0, - 1]]) [[0, 0], [0, - 1]] (8413 / 10000)
       [1, 0] 1 [0, 4 / 10000] 0 = Return 1 \<and>
   \<not> (1::real) < 1 / 10 ^ 6"
proof -
  have p: "psd [[2, 0], [0, 2]]" by (rule psd_diag) simp_all
  have "(0::real) \<le> sqrt 2" and "(1 / 10 ^ 6 :: real) < 1" by simp_all
  then have s: "\<not> 1 + sqrt 2 < 1 / 10 ^ 6" by linarith
  show ?thesis using p s solve_ex_repeated_psd solve_ex_repeated_indefinite residual_ex_repeated_psd residual_ex_repeated_indefinite by simp
qed

subsection \<open>The branches on the discriminant\<close>

text \<open>
  Claim C5, as amended. Let the solver have computed the coefficients \<open>(a, b, c)\<close> and
  \<open>D = b\<^sup>2 - 4ac\<close>. The test \<open>a < tol_underflow\<close> comes before every test on \<open>D\<close>: when it
  holds the solver raises the \<^verbatim>\<open>ArithmeticError\<close> of the underflow risk, whatever \<open>D\<close> is.
  When it does not hold: if \<open>D < 0\<close> and \<open>|D| \<ge> tol\<close> the solver returns \<^verbatim>\<open>None\<close> and
  raises nothing; if \<open>D > 0\<close> (and \<open>a\<close> is not 0) and the residual at neither root is
  below \<open>tol\<close>, it raises the \<^verbatim>\<open>ValueError\<close> of the root selection.
\<close>

theorem solver_discriminant_branches:
  assumes y: "y = 0 \<or> y = 1" and cov: "cov_params st = Some cov"
    and lv: "0 < flipped y level" "flipped y level < 1"
    and qc: "quadratic_coeffs (beta_hat st) cov (erfinv (2 * flipped y level - 1)) x delta = Return (a, b, c)"
  shows "(a < tol_underflow \<longrightarrow>
            solve_lambda erfinv st level x y delta tol tol_underflow
              = Raise (ArithmeticError ''Risk of underflow'')) \<and>
         (tol_underflow \<le> a \<and> b\<^sup>2 - 4 * a * c < 0 \<and> tol \<le> \<bar>b\<^sup>2 - 4 * a * c\<bar> \<longrightarrow>
            solve_lambda erfinv st level x y delta tol tol_underflow = Return None) \<and>
         (tol_underflow \<le> a \<and> a \<noteq> 0 \<and> 0 < b\<^sup>2 - 4 * a * c \<and>
          residual_at erfinv st cov level x y delta ((- b - sqrt (b\<^sup>2 - 4 * a * c)) / (2 * a)) = Return e1 \<and>
          residual_at erfinv st cov level x y delta ((- b + sqrt (b\<^sup>2 - 4 * a * c)) / (2 * a)) = Return e2 \<and>
          tol \<le> e1 \<and> tol \<le> e2 \<longrightarrow>
            solve_lambda erfinv st level x y delta tol tol_underflow
              = Raise (ValueError ''Error when solving the 2nd degree equation.''))"
proof -
  have r: "- 1 < 2 * flipped y level - 1" "2 * flipped y level - 1 < 1" using lv by simp_all
  note unf = solve_lambda_unfold [where erfinv = erfinv and tol = tol and tol_underflow = tol_underflow,
      OF y cov r qc]
  show ?thesis unfolding unf by (auto simp: residual_at_def)
qed

text \<open>
  The three branches of the theorem at concrete inputs: \<open>a = -2\<close> under the default
  \<open>tol_underflow\<close>; \<open>a = -2\<close>, \<open>D = -8\<close> with \<open>tol_underflow = -10\<close>; and \<open>D = 16/25\<close>
  with \<open>tol = 0\<close>, where the residuals at the two roots are 0 and 2/3.
\<close>

theorem solver_discriminant_branches_witness:
  "solve_lambda erfinv_ex (plain_engine [[2, 0], [0, 2]]) (8413 / 10000) [1, 1] 1 [0, 1] (1 / 10 ^ 6) (1 / 10 ^ 7)
     = Raise (ArithmeticError ''Risk of underflow'') \<and>
   solve_lambda erfinv_ex (plain_engine [[2, 0], [0, 2]]) (8413 / 10000) [1, 0] 1 [0, 1] (1 / 10 ^ 6) (- 10)
     = Return None \<and>
   solve_lambda erfinv_ex (plain_engine [[1 / 5, 0], [0, 1 / 5]]) (8413 / 10000) [1, 0] 1 [1, 1] 0 (1 / 10 ^ 7)
     = Raise (ValueError ''Error when solving the 2nd degree equation.'')"
proof -
  have y: "(1::int) = 0 \<or> (1::int) = 1" by simp
  have l: "0 < flipped 1 (8413 / 10000)" "flipped 1 (8413 / 10000) < 1" by (simp_all add: flipped_def)
  have r1: "(- (8 / 5) - sqrt ((8 / 5)\<^sup>2 - 4 * (3 / 5) * (4 / 5))) / (2 * (3 / 5)) = (- 2 :: real)"
    by (simp add: power2_eq_square sqrt_16_25)
  have r2: "(- (8 / 5) + sqrt ((8 / 5)\<^sup>2 - 4 * (3 / 5) * (4 / 5))) / (2 * (3 / 5)) = (- (2 / 3) :: real)"
    by (simp add: power2_eq_square sqrt_16_25)
  from solver_discriminant_branches [where erfinv = erfinv_ex and tol = "1 / 10 ^ 6" and tol_underflow = "1 / 10 ^ 7",
      OF y plain_cov l coeffs_ex_b]
  have 1: "solve_lambda erfinv_ex (plain_engine [[2, 0], [0, 2]]) (8413 / 10000) [1, 1] 1 [0, 1] (1 / 10 ^ 6) (1 / 10 ^ 7)
     = Raise (ArithmeticError ''Risk of underflow'')" by simp
  from solver_discriminant_branches [where erfinv = erfinv_ex and tol = "1 / 10 ^ 6" and tol_underflow = "- 10",
      OF y plain_cov l coeffs_ex_a]
  have 2: "solve_lambda erfinv_ex (plain_engine [[2, 0], [0, 2]]) (8413 / 10000) [1, 0] 1 [0, 1] (1 / 10 ^ 6) (- 10)
     = Return None" by simp
  from solver_discriminant_branches [where erfinv = erfinv_ex and tol = 0 and tol_underflow = "1 / 10 ^ 7"
      and ?e1.0 = 0 and ?e2.0 = "2 / 3", OF y plain_cov l coeffs_ex_c]
  have 3: "solve_lambda erfinv_ex (plain_engine [[1 / 5, 0], [0, 1 / 5]]) (8413 / 10000) [1, 0] 1 [1, 1] 0 (1 / 10 ^ 7)
     = Raise (ValueError ''Error when solving the 2nd degree equation.'')"
    unfolding r1 r2 using residual_ex_c1 residual_ex_c2 by (simp add: power2_eq_square)
  from 1 2 3 show ?thesis by simp
qed

text \<open>
  Claim C5 as it is stated fails: with twice the identity as covariance, a positive
  semi-definite matrix, and the default tolerances, \<open>D = -8\<close> is negative beyond the
  tolerance and the solver raises, since \<open>a = -2\<close> is below \<open>tol_underflow\<close>.
\<close>

theorem negative_discriminant_counterexample:
  "psd [[2, 0], [0, 2]] \<and>
   quadratic_coeffs (beta_hat (plain_engine [[2, 0], [0, 2]])) [[2, 0], [0, 2]]
      (erfinv_ex (2 * flipped 1 (8413 / 10000) - 1)) [1, 0] [0, 1] = Return (- 2, 0, - 1) \<and>
   (0::real)\<^sup>2 - 4 * (- 2) * (- 1) < 0 \<and> 1 / 10 ^ 6 \<le> \<bar>(0::real)\<^sup>2 - 4 * (- 2) * (- 1)\<bar> \<and>
   solve_lambda erfinv_ex (plain_engine [[2, 0], [0, 2]]) (8413 / 10000) [1, 0] 1 [0, 1] (1 / 10 ^ 6) (1 / 10 ^ 7)
     = Raise (ArithmeticError ''Risk of underflow'')"
proof -
  have p: "psd [[2, 0], [0, 2]]" by (rule psd_diag) simp_all
  show ?thesis using p coeffs_ex_a solve_ex_underflow by simp
qed

section \<open>The covariance estimator\<close>

text \<open>
  Claim C7, as the code has it. For a statsmodels model that reports
  \<^verbatim>\<open>normalized_cov_params\<close> the estimator takes that matrix and succeeds for every design
  matrix, of whatever shape, and for none at all: it does not read the design matrix and
  compares no dimensions.
\<close>

theorem statsmodels_ignores_design_matrix:
  assumes "module st = ''statsmodels''" and "fitted st = Statsmodels (Some cov)"
  shows "compute_covariance lib st X_train = Return (st\<lparr>cov_params := Some cov\<rparr>)"
  using assms by (simp add: compute_covariance_def)

text \<open>
  The theorem at a GLM with a constant and one feature, called without a design matrix.
\<close>

theorem statsmodels_ignores_design_matrix_witness:
  "module glm_engine = ''statsmodels'' \<and> fitted glm_engine = Statsmodels (Some [[1 / 4, 0], [0, 1 / 4]]) \<and>
   compute_covariance lib_ex glm_engine None
     = Return (glm_engine\<lparr>cov_params := Some [[1 / 4, 0], [0, 1 / 4]]\<rparr>)"
proof -
  have m: "module glm_engine = ''statsmodels''"
    and f: "fitted glm_engine = Statsmodels (Some [[1 / 4, 0], [0, 1 / 4]])"
    by (simp_all add: glm_engine_def)
  from statsmodels_ignores_design_matrix [OF m f, of lib_ex None] m f show ?thesis by simp
qed

text \<open>
  Claim C7 as it is stated fails there: the model has two coefficients, the design matrix
  has five columns, and the estimator returns with the covariance set.
\<close>

theorem dimension_mismatch_counterexample:
  "length (beta_hat glm_engine) = 2 \<and>
   is_shape 2 5 [[1, 2, 3, 4, 5], [1, 0, 0, 0, 0]] \<and>
   compute_covariance lib_ex glm_engine (Some [[1, 2, 3, 4, 5], [1, 0, 0, 0, 0]])
     = Return (glm_engine\<lparr>cov_params := Some [[1 / 4, 0], [0, 1 / 4]]\<rparr>) \<and>
   \<not> raises (compute_covariance lib_ex glm_engine (Some [[1, 2, 3, 4, 5], [1, 0, 0, 0, 0]]))"
  by (simp add: glm_engine_def compute_covariance_def raises_def is_shape_def)

section \<open>The orchestrator\<close>

lemma alphas_of_rejected: "\<not> accepted_alpha a \<Longrightarrow> alphas_of a = Raise (PyException ''Invalid alpha parameter'')"
  by (cases a) (simp_all add: accepted_alpha_def alphas_of_def)

lemma ex_projection:
  "compute_orthogonal_projection ex_engine [1, 2, 3] (1 / 1000000)
     = Return [0, - (1000001 / 2500000), 1000001 / 5000000]"
  by (simp add: compute_orthogonal_projection_def minus0_is_0d_def ex_beta np_dot_def sum_sq_def smult_def
      np_insert_def Let_def)

lemma ex_prelude_missing:
  "prelude ex_engine [2, 3] 1 ''missing''
     = Return ([1, 2, 3], [0, - (1000001 / 2500000), 1000001 / 5000000], None)"
  by (simp add: prelude_def add_constant_x_def ex_beta ex_projection np_dot_def py_assert_def
      np_add_def vadd_def check_bounds_missing out_of_range_def under_bound_def over_bound_def Let_def)

lemma ex_prelude_clipping:
  "prelude ex_engine [2, 3] 1 ''clipping''
     = Return ([1, 2, 3], [0, - (1000001 / 2500000), 1000001 / 5000000], Some [1, 1, 1])"
  by (simp add: prelude_def add_constant_x_def ex_beta ex_projection np_dot_def py_assert_def
      np_add_def vadd_def check_bounds_clipping clip_lower_def clip_upper_def Let_def)

lemma ex_prelude_nothing:
  "prelude ex_engine [2, 3] 1 ''nothing''
     = Return ([1, 2, 3], [0, - (1000001 / 2500000), 1000001 / 5000000],
               Some [1, 3999999 / 2500000, 16000001 / 5000000])"
  by (simp add: prelude_def add_constant_x_def ex_beta ex_projection np_dot_def py_assert_def
      np_add_def vadd_def check_bounds_nothing Let_def)

lemma ex_probability:
  "compute_probability_predx_equals_y norm_cdf_ex ex_engine [1, 2, 3] 1 = Return (3 / 4)"
  by (simp add: compute_probability_predx_equals_y_def py_assert_def ex_beta np_dot_def
      quad_square [of 3] is_shape_def bil_def vadd_def smult_def norm_cdf_ex_def Let_def)

lemma ex_run_missing:
  "compute_adversarial_perturbation erfinv_ex norm_cdf_ex ex_engine [2, 3] 1 (PyFloat 0) ''missing''
       (1 / 10 ^ 6) (1 / 10 ^ 7)
     = Return (Single \<lparr>alpha = 0, lambda_star = 0, x_adv_star = None, x_adv_0 = None\<rparr>)"
  by (simp add: compute_adversarial_perturbation_def ex_prelude_missing alphas_of_def ex_probability
      one_level_def check_bounds_missing out_of_range_def under_bound_def over_bound_def ex_beta)

lemma ex_run_clipping:
  "compute_adversarial_perturbation erfinv_ex norm_cdf_ex ex_engine [2, 3] 1 (PyFloat 0) ''clipping''
       (1 / 10 ^ 6) (1 / 10 ^ 7)
     = Return (Single \<lparr>alpha = 0, lambda_star = 0, x_adv_star = Some [1, 1, 1], x_adv_0 = Some [1, 1, 1]\<rparr>)"
  by (simp add: compute_adversarial_perturbation_def ex_prelude_clipping alphas_of_def ex_probability
      one_level_def check_bounds_clipping clip_lower_def clip_upper_def ex_beta)

lemma ex_run_nothing:
  "compute_adversarial_perturbation erfinv_ex norm_cdf_ex ex_engine [2, 3] 1 (PyFloat 0) ''nothing''
       (1 / 10 ^ 6) (1 / 10 ^ 7)
     = Return (Single \<lparr>alpha = 0, lambda_star = 0, x_adv_star = Some [1, 2, 3],
                        x_adv_0 = Some [1, 3999999 / 2500000, 16000001 / 5000000]\<rparr>)"
  by (simp add: compute_adversarial_perturbation_def ex_prelude_nothing alphas_of_def ex_probability
      one_level_def check_bounds_nothing)

text \<open>
  Claim C10, as amended. When the runtime type of \<^verbatim>\<open>alpha\<close> is neither \<^verbatim>\<open>float\<close> nor
  \<^verbatim>\<open>list\<close> (an \<^verbatim>\<open>int\<close>, a numpy float, a tuple), the orchestrator returns no
  result. The test of the type comes after lines 272 to 287 (alignment, the check of the
  covariance, the assertion on the label, the projection, its self-check and the bounds of
  the projected point): when these raise nothing the exception is
  \<^verbatim>\<open>Exception('Invalid alpha parameter')\<close>, raised before any level is looked at, and
  when one of them raises, the orchestrator ends with that exception.
\<close>

theorem invalid_alpha_rejected:
  assumes "\<not> accepted_alpha a"
  shows "(\<forall>out. compute_adversarial_perturbation erfinv norm_cdf st x0 y a out_bounds tol tol_underflow \<noteq> Return out) \<and>
         (\<forall>p. prelude st x0 y out_bounds = Return p \<longrightarrow>
            compute_adversarial_perturbation erfinv norm_cdf st x0 y a out_bounds tol tol_underflow
              = Raise (PyException ''Invalid alpha parameter'')) \<and>
         (\<forall>e. prelude st x0 y out_bounds = Raise e \<longrightarrow>
            compute_adversarial_perturbation erfinv norm_cdf st x0 y a out_bounds tol tol_underflow
              = Raise e)"
  using alphas_of_rejected [OF assms]
  by (cases "prelude st x0 y out_bounds") (auto simp: compute_adversarial_perturbation_def)

text \<open>
  The theorem at the integer 1, on the scenario of the specification.
\<close>

theorem invalid_alpha_rejected_witness:
  "\<not> accepted_alpha (PyInt 1) \<and> \<not> accepted_alpha (NpFloat64 (95 / 100)) \<and>
   \<not> accepted_alpha (PyTuple [1 / 2, 95 / 100]) \<and>
   prelude ex_engine [2, 3] 1 ''nothing''
     = Return ([1, 2, 3], [0, - (1000001 / 2500000), 1000001 / 5000000],
               Some [1, 3999999 / 2500000, 16000001 / 5000000]) \<and>
   compute_adversarial_perturbation erfinv_ex norm_cdf_ex ex_engine [2, 3] 1 (PyInt 1) ''nothing''
       (1 / 10 ^ 6) (1 / 10 ^ 7) = Raise (PyException ''Invalid alpha parameter'')"
proof -
  have a: "\<not> accepted_alpha (PyInt 1)" "\<not> accepted_alpha (NpFloat64 (95 / 100))"
    "\<not> accepted_alpha (PyTuple [1 / 2, 95 / 100])" by (simp_all add: accepted_alpha_def)
  from invalid_alpha_rejected [OF a(1), of erfinv_ex norm_cdf_ex ex_engine "[2, 3]" 1 "''nothing''"
      "1 / 10 ^ 6" "1 / 10 ^ 7"] ex_prelude_nothing
  have "compute_adversarial_perturbation erfinv_ex norm_cdf_ex ex_engine [2, 3] 1 (PyInt 1) ''nothing''
       (1 / 10 ^ 6) (1 / 10 ^ 7) = Raise (PyException ''Invalid alpha parameter'')" by blast
  then show ?thesis using a ex_prelude_nothing by simp
qed

text \<open>
  Claim C10 as it is stated, the invalid-alpha error for every other input, fails where an
  earlier step raises. For the integer 1 as \<^verbatim>\<open>alpha\<close>: on an engine whose covariance has
  not been computed the orchestrator raises the exception of the missing covariance, and
  on the scenario of the specification with the label 2 it fails the assertion on the
  label.
\<close>

theorem invalid_alpha_counterexample:
  "\<not> accepted_alpha (PyInt 1) \<and>
   compute_adversarial_perturbation erfinv_ex norm_cdf_ex flat_engine [1, 1] 1 (PyInt 1) ''nothing''
       (1 / 10 ^ 6) (1 / 10 ^ 7)
     = Raise (PyException ''Missing cov_params. Call: self.compute_covariance(X_train, y_train)'') \<and>
   compute_adversarial_perturbation erfinv_ex norm_cdf_ex ex_engine [2, 3] 2 (PyInt 1) ''nothing''
       (1 / 10 ^ 6) (1 / 10 ^ 7)
     = Raise AssertionError"
  by (simp add: accepted_alpha_def compute_adversarial_perturbation_def prelude_def flat_engine_def
      ex_engine_def py_assert_def Let_def)

lemma one_level_zero:
  "1 - P \<ge> a \<Longrightarrow>
   one_level erfinv norm_cdf st y ob tol tu delta xa0 P x a =
     bind_run (check_bounds st x ob) (\<lambda>checked.
       Return (zero_result a checked xa0, (case checked of None \<Rightarrow> x | Some v \<Rightarrow> v)))"
  by (simp add: one_level_def zero_result_def)

lemma one_level_keeps:
  assumes "one_level erfinv norm_cdf st y ob tol tu delta xa0 P x a = Return (r, x')"
  shows "check_bounds st x' ob = check_bounds st x ob"
proof (cases "1 - P \<ge> a")
  case True
  from assms obtain checked where c: "check_bounds st x ob = Return checked"
    and x': "x' = (case checked of None \<Rightarrow> x | Some v \<Rightarrow> v)"
    unfolding one_level_zero [OF True] by (auto simp: bind_run_Return_iff)
  show ?thesis
  proof (cases checked)
    case None
    then show ?thesis using x' by simp
  next
    case (Some v)
    then show ?thesis using x' c check_bounds_idem [of st x ob v] by simp
  qed
next
  case False
  with assms have "x' = x"
    by (auto simp: one_level_def bind_run_Return_iff split: option.splits if_splits)
  then show ?thesis by simp
qed

lemma levels_length: "levels turn x alphas = Return rs \<Longrightarrow> length rs = length alphas"
  by (induction alphas arbitrary: x rs) (auto simp: bind_run_Return_iff)

lemma levels_zero_entry:
  assumes "levels (one_level erfinv norm_cdf st y ob tol tu delta xa0 P) x alphas = Return rs"
    and "i < length alphas" and "1 - P \<ge> alphas ! i"
  shows "\<exists>checked. check_bounds st x ob = Return checked \<and> rs ! i = zero_result (alphas ! i) checked xa0"
  using assms
proof (induction alphas arbitrary: x rs i)
  case Nil
  then show ?case by simp
next
  case (Cons a alphas)
  let ?turn = "one_level erfinv norm_cdf st y ob tol tu delta xa0 P"
  from Cons.prems(1) obtain r x' rs' where t: "?turn x a = Return (r, x')"
    and l: "levels ?turn x' alphas = Return rs'" and rs: "rs = r # rs'"
    by (auto simp: bind_run_Return_iff)
  show ?case
  proof (cases i)
    case 0
    with Cons.prems(3) have z: "1 - P \<ge> a" by simp
    from t show ?thesis unfolding one_level_zero [OF z] using 0 rs
      by (auto simp: bind_run_Return_iff)
  next
    case (Suc j)
    with Cons.prems have "j < length alphas" "1 - P \<ge> alphas ! j" by simp_all
    from Cons.IH [OF l this] one_level_keeps [OF t] show ?thesis using Suc rs by simp
  qed
qed

lemma orchestrator_Return:
  assumes "compute_adversarial_perturbation erfinv norm_cdf st x0 y a ob tol tu = Return out"
  shows "\<exists>x delta xa0 alphas P.
           prelude st x0 y ob = Return (x, delta, xa0) \<and> alphas_of a = Return alphas \<and>
           compute_probability_predx_equals_y norm_cdf st x y = Return P \<and>
           levels (one_level erfinv norm_cdf st y ob tol tu delta xa0 P) x alphas = Return (results_of out)"
proof -
  from assms obtain x delta xa0 alphas P rs where
    p: "prelude st x0 y ob = Return (x, delta, xa0)" and al: "alphas_of a = Return alphas"
    and P: "compute_probability_predx_equals_y norm_cdf st x y = Return P"
    and l: "levels (one_level erfinv norm_cdf st y ob tol tu delta xa0 P) x alphas = Return rs"
    and out: "out = (if length alphas = 1 then Single (hd rs) else Many rs)"
    by (auto simp: compute_adversarial_perturbation_def bind_run_Return_iff)
  from levels_length [OF l] have "length alphas = 1 \<Longrightarrow> [hd rs] = rs"
    by (cases rs) simp_all
  then have "results_of out = rs" using out by simp
  then show ?thesis using p al P l by auto
qed

text \<open>
  Claim C3, as amended. When the orchestrator returns and a requested level \<open>alpha\<close> has
  \<open>1 - P[pred(x) = y] \<ge> alpha\<close>, the dictionary of that level has \<open>lambda_star = 0\<close> and
  as \<open>x_adv_star\<close> what the bounds enforcer makes of the aligned example \<open>x\<close>: \<open>x\<close>
  itself in the mode \<^verbatim>\<open>nothing\<close> and whenever \<open>x\<close> is within the bounds, else \<^verbatim>\<open>None\<close>
  (\<^verbatim>\<open>missing\<close>) or the clipped \<open>x\<close> (\<^verbatim>\<open>clipping\<close>). The solver has no part in that
  dictionary.
\<close>

theorem zero_intensity_level:
  assumes ret: "compute_adversarial_perturbation erfinv norm_cdf st x0 y a ob tol tu = Return out"
    and pre: "prelude st x0 y ob = Return (x, delta, xa0)"
    and al: "alphas_of a = Return alphas"
    and P: "compute_probability_predx_equals_y norm_cdf st x y = Return P"
    and i: "i < length alphas" and z: "1 - P \<ge> alphas ! i"
  shows "\<exists>checked. check_bounds st x ob = Return checked \<and>
           results_of out ! i = \<lparr>alpha = alphas ! i, lambda_star = 0, x_adv_star = checked, x_adv_0 = xa0\<rparr> \<and>
           (ob = ''nothing'' \<or> \<not> list_ex (out_of_range st) x \<longrightarrow> checked = Some x)"
proof -
  from orchestrator_Return [OF ret] pre al P
  have l: "levels (one_level erfinv norm_cdf st y ob tol tu delta xa0 P) x alphas = Return (results_of out)"
    by auto
  from levels_zero_entry [OF l i z] obtain checked where
    c: "check_bounds st x ob = Return checked" and r: "results_of out ! i = zero_result (alphas ! i) checked xa0"
    by auto
  have "ob = ''nothing'' \<or> \<not> list_ex (out_of_range st) x \<longrightarrow> checked = Some x"
  proof (rule check_bounds_cases [OF c])
    assume "ob = ''clipping''"
    then show ?thesis using c
      by (auto simp: check_bounds_clipping clip_lower_noop clip_upper_noop out_of_range_def list_ex_iff)
  next
    assume "ob = ''missing''"
    then show ?thesis using c by (auto simp: check_bounds_missing)
  next
    assume "ob = ''nothing''"
    then show ?thesis using c by (auto simp: check_bounds_nothing)
  qed simp
  then show ?thesis using c r by (simp add: zero_result_def)
qed

text \<open>
  The theorem at the level 0 in the mode \<^verbatim>\<open>nothing\<close>.
\<close>

theorem zero_intensity_level_witness:
  "compute_adversarial_perturbation erfinv_ex norm_cdf_ex ex_engine [2, 3] 1 (PyFloat 0) ''nothing''
       (1 / 10 ^ 6) (1 / 10 ^ 7)
     = Return (Single \<lparr>alpha = 0, lambda_star = 0, x_adv_star = Some [1, 2, 3],
                        x_adv_0 = Some [1, 3999999 / 2500000, 16000001 / 5000000]\<rparr>) \<and>
   compute_probability_predx_equals_y norm_cdf_ex ex_engine [1, 2, 3] 1 = Return (3 / 4) \<and>
   (1::real) - 3 / 4 \<ge> [0] ! 0 \<and>
   check_bounds ex_engine [1, 2, 3] ''nothing'' = Return (Some [1, 2, 3]) \<and>
   results_of (Single \<lparr>alpha = 0, lambda_star = 0, x_adv_star = Some [1, 2, 3],
                        x_adv_0 = Some [1, 3999999 / 2500000, 16000001 / 5000000]\<rparr>) ! 0
     = \<lparr>alpha = 0, lambda_star = 0, x_adv_star = Some [1, 2, 3],
        x_adv_0 = Some [1, 3999999 / 2500000, 16000001 / 5000000]\<rparr>"
proof -
  have al: "alphas_of (PyFloat 0) = Return [0]" by (simp add: alphas_of_def)
  have i: "0 < length [0::real]" by simp
  have z: "(1::real) - 3 / 4 \<ge> [0] ! 0" by simp
  from zero_intensity_level [OF ex_run_nothing ex_prelude_nothing al ex_probability i z]
  show ?thesis using ex_run_nothing ex_probability by (auto simp: check_bounds_nothing)
qed

text \<open>
  Claim C3 as it is stated fails in the mode \<^verbatim>\<open>missing\<close>: the aligned example
  \<open>[1, 2, 3]\<close> is out of the bounds 0 and 1, the level 0 is met without perturbation, and
  \<open>x_adv_star\<close> is \<^verbatim>\<open>None\<close>, not \<open>x\<close>.
\<close>

theorem zero_intensity_counterexample:
  "compute_probability_predx_equals_y norm_cdf_ex ex_engine (add_constant_x ex_engine [2, 3]) 1 = Return (3 / 4) \<and>
   (1::real) - 3 / 4 \<ge> 0 \<and>
   compute_adversarial_perturbation erfinv_ex norm_cdf_ex ex_engine [2, 3] 1 (PyFloat 0) ''missing''
       (1 / 10 ^ 6) (1 / 10 ^ 7)
     = Return (Single \<lparr>alpha = 0, lambda_star = 0, x_adv_star = None, x_adv_0 = None\<rparr>)"
  using ex_probability ex_run_missing by (simp add: add_constant_x_def ex_beta)

lemma aligned_checked:
  assumes "check_bounds st z ob = Return (Some v)" and "length z = Suc n"
    and "z ! 0 = 1 \<or> z ! 0 = intercept_image st ob"
  shows "aligned st ob n v"
  using check_bounds_head [OF assms(1)] assms(2,3)
  by (auto simp: aligned_def intercept_image_def clip_scalar_idem)

lemma one_level_aligned:
  assumes t: "one_level erfinv norm_cdf st y ob tol tu delta xa0 P x a = Return (r, x')"
    and lx: "length x = Suc n" and x0: "x ! 0 = 1 \<or> x ! 0 = intercept_image st ob"
    and ld: "length delta = Suc n" and d0: "delta ! 0 = 0"
  shows "(length x' = Suc n \<and> (x' ! 0 = 1 \<or> x' ! 0 = intercept_image st ob)) \<and>
         (\<forall>v. x_adv_star r = Some v \<longrightarrow> aligned st ob n v) \<and> x_adv_0 r = xa0"
proof (cases "1 - P \<ge> a")
  case True
  from t obtain checked where c: "check_bounds st x ob = Return checked"
    and r: "r = zero_result a checked xa0" and x': "x' = (case checked of None \<Rightarrow> x | Some v \<Rightarrow> v)"
    unfolding one_level_zero [OF True] by (auto simp: bind_run_Return_iff)
  show ?thesis
  proof (cases checked)
    case None
    then show ?thesis using r x' lx x0 by (simp add: zero_result_def)
  next
    case (Some v)
    with c have "aligned st ob n v" using aligned_checked lx x0 by blast
    then show ?thesis using Some r x' by (simp add: zero_result_def aligned_def)
  qed
next
  case False
  with t obtain lam z checked where z: "np_add x (smult lam delta) = Return z"
    and c: "check_bounds st z ob = Return checked"
    and r: "r = \<lparr>alpha = a, lambda_star = lam, x_adv_star = checked, x_adv_0 = xa0\<rparr>" and x': "x' = x"
    by (auto simp: one_level_def bind_run_Return_iff split: option.splits)
  from z lx ld have zv: "z = vadd x (smult lam delta)" by (simp add: np_add_def)
  then have lz: "length z = Suc n" and z0: "z ! 0 = x ! 0" using lx ld d0 by simp_all
  have "\<forall>v. checked = Some v \<longrightarrow> aligned st ob n v"
    using c aligned_checked lz z0 x0 by auto
  then show ?thesis using r x' lx x0 by simp
qed

lemma levels_aligned:
  assumes "levels (one_level erfinv norm_cdf st y ob tol tu delta xa0 P) x alphas = Return rs"
    and "length x = Suc n" and "x ! 0 = 1 \<or> x ! 0 = intercept_image st ob"
    and "length delta = Suc n" and "delta ! 0 = 0" and "r \<in> set rs"
  shows "(\<forall>v. x_adv_star r = Some v \<longrightarrow> aligned st ob n v) \<and> x_adv_0 r = xa0"
  using assms
proof (induction alphas arbitrary: x rs)
  case Nil
  then show ?case by simp
next
  case (Cons a alphas)
  let ?turn = "one_level erfinv norm_cdf st y ob tol tu delta xa0 P"
  from Cons.prems(1) obtain r0 x' rs' where t: "?turn x a = Return (r0, x')"
    and l: "levels ?turn x' alphas = Return rs'" and rs: "rs = r0 # rs'"
    by (auto simp: bind_run_Return_iff)
  note step = one_level_aligned [OF t Cons.prems(2,3,4,5)]
  show ?case
  proof (cases "r = r0")
    case True
    then show ?thesis using step by simp
  next
    case False
    then have "r \<in> set rs'" using Cons.prems(6) rs by simp
    with Cons.IH [OF l _ _ Cons.prems(4,5)] step show ?thesis by blast
  qed
qed

lemma prelude_aligned:
  assumes inv: "engine_inv st" and hi: "model_has_intercept st" and nc: "\<not> X_has_constant st"
    and pre: "prelude st x0 y ob = Return (x, delta, xa0)"
  shows "x = 1 # x0 \<and> length delta = Suc (length x0) \<and> delta ! 0 = 0 \<and>
         length (beta_hat st) = Suc (length x0) \<and>
         (\<forall>v. xa0 = Some v \<longrightarrow> aligned st ob (length x0) v)"
proof -
  from inv hi nc have i0: "idx_beta0 st = 0" and bm: "beta_hat_minus0 st = drop (Suc 0) (beta_hat st)"
    by (auto simp: engine_inv_def)
  from pre hi nc obtain s z where x: "x = 1 # x0"
    and s: "np_dot (1 # x0) (beta_hat st) = Return s"
    and d: "compute_orthogonal_projection st (1 # x0) (1 / 10 ^ 6) = Return delta"
    and z: "np_add (1 # x0) delta = Return z"
    and c: "check_bounds st z ob = Return xa0"
    by (auto simp: prelude_def add_constant_x_def Let_def bind_run_Return_iff split: if_splits)
  from s have lb: "length (beta_hat st) = Suc (length x0)"
    by (simp add: np_dot_def split: if_splits)
  from d hi i0 obtain d' where d': "delta = 0 # d'" and ld': "length d' = length (beta_hat_minus0 st)"
    by (auto simp: compute_orthogonal_projection_def Let_def bind_run_Return_iff np_insert_def smult_def
        split: if_splits)
  have ld: "length delta = Suc (length x0)" using d' ld' bm lb by simp
  from z ld have zv: "z = vadd (1 # x0) delta" by (simp add: np_add_def)
  then have lz: "length z = Suc (length x0)" and z0: "z ! 0 = 1" using ld d' by (simp_all add: vadd_def)
  have "\<forall>v. xa0 = Some v \<longrightarrow> aligned st ob (length x0) v"
    using c aligned_checked lz z0 by auto
  then show ?thesis using x ld d' lb by simp
qed

text \<open>
  Claim C9. Let the model have an intercept and the examples no constant term (an engine
  as \<^verbatim>\<open>__init__\<close> builds it for sklearn). Then the full coefficient vector has one entry
  more than the example has features, and every vector in a returned dictionary,
  \<open>x_adv_star\<close> (also the \<open>x\<close> of a level met without perturbation) and \<open>x_adv_0\<close>, has
  that length, with the constant 1 at the index of the intercept, or in the mode
  \<^verbatim>\<open>clipping\<close> what the clipping makes of 1.
\<close>

theorem returned_vectors_aligned:
  assumes inv: "engine_inv st" and hi: "model_has_intercept st" and nc: "\<not> X_has_constant st"
    and ret: "compute_adversarial_perturbation erfinv norm_cdf st x0 y a ob tol tu = Return out"
    and r: "r \<in> set (results_of out)"
  shows "length (beta_hat st) = length x0 + 1 \<and>
         (\<forall>v. x_adv_star r = Some v \<longrightarrow> length v = length x0 + 1 \<and> v ! 0 = intercept_image st ob) \<and>
         (\<forall>v. x_adv_0 r = Some v \<longrightarrow> length v = length x0 + 1 \<and> v ! 0 = intercept_image st ob)"
proof -
  from orchestrator_Return [OF ret] obtain x delta xa0 alphas P where
    pre: "prelude st x0 y ob = Return (x, delta, xa0)"
    and l: "levels (one_level erfinv norm_cdf st y ob tol tu delta xa0 P) x alphas = Return (results_of out)"
    by auto
  from prelude_aligned [OF inv hi nc pre] have x: "x = 1 # x0"
    and ld: "length delta = Suc (length x0)" and d0: "delta ! 0 = 0"
    and lb: "length (beta_hat st) = Suc (length x0)"
    and xa0: "\<forall>v. xa0 = Some v \<longrightarrow> aligned st ob (length x0) v" by simp_all
  from levels_aligned [OF l _ _ ld d0 r] x
  have "(\<forall>v. x_adv_star r = Some v \<longrightarrow> aligned st ob (length x0) v) \<and> x_adv_0 r = xa0" by simp
  then show ?thesis using xa0 lb by (simp add: aligned_def)
qed

text \<open>
  The theorem at the level 0 in the mode \<^verbatim>\<open>clipping\<close>: both vectors are \<open>[1, 1, 1]\<close>
  for the example \<open>[2, 3]\<close>.
\<close>

theorem returned_vectors_aligned_witness:
  "engine_inv ex_engine \<and> model_has_intercept ex_engine \<and> \<not> X_has_constant ex_engine \<and>
   compute_adversarial_perturbation erfinv_ex norm_cdf_ex ex_engine [2, 3] 1 (PyFloat 0) ''clipping''
       (1 / 10 ^ 6) (1 / 10 ^ 7)
     = Return (Single \<lparr>alpha = 0, lambda_star = 0, x_adv_star = Some [1, 1, 1], x_adv_0 = Some [1, 1, 1]\<rparr>) \<and>
   length (beta_hat ex_engine) = length [2, 3 :: real] + 1 \<and>
   length [1, 1, 1 :: real] = length [2, 3 :: real] + 1 \<and>
   [1, 1, 1] ! 0 = intercept_image ex_engine ''clipping''"
proof -
  let ?r = "\<lparr>alpha = 0, lambda_star = 0, x_adv_star = Some [1, 1, 1], x_adv_0 = Some [1, 1, 1]\<rparr>"
  have r: "?r \<in> set (results_of (Single ?r))" by simp
  from returned_vectors_aligned [OF ex_inv ex_beta(3) ex_beta(4) ex_run_clipping r]
  have "length (beta_hat ex_engine) = length [2, 3 :: real] + 1 \<and>
        length [1, 1, 1 :: real] = length [2, 3 :: real] + 1 \<and>
        [1, 1, 1] ! 0 = intercept_image ex_engine ''clipping''" by simp
  then show ?thesis using ex_inv ex_beta(3) ex_beta(4) ex_run_clipping by simp
qed

end
